theory Spec2Isabelle
  imports Main
begin

section \<open>Data model\<close>

text \<open>
  The server keeps its state in a relational store reached through the ORM. The model
  holds the tables the registration, verification and login handlers touch. A
  \<open>DateTime\<close> is a number of milliseconds; a nullable column is an \<open>option\<close>;
  strings are ASCII. A handler is a function from the request and the store to the
  response and the new store. The store and the libraries are taken to work: the only
  failures modelled are the ones the handlers raise or catch by name (schema errors, the
  unique-constraint and record-not-found errors of the ORM, the generator giving up, a
  transport that is not configured or fails).
\<close>

type_synonym timestamp = nat

text \<open>The result of \<open>new Date(s)\<close>: a date, or the invalid date whose \<open>getTime()\<close>
  is \<open>NaN\<close>.\<close>

datatype js_date = Date timestamp | InvalidDate

text \<open>The \<open>Customer\<close> table, column by column (migration
  \<open>add_verification_and_consent_fields\<close>). The primary key \<open>id\<close> is called
  \<open>cid\<close> here.\<close>

record customer =
  cid :: string
  firstName :: string
  lastName :: string
  phoneNumber :: string
  email :: "string option"
  isVerified :: bool
  phoneVerificationCode :: "string option"
  emailVerificationCode :: "string option"
  isPhoneVerified :: bool
  isEmailVerified :: bool
  consentEmail :: bool
  consentSms :: bool
  consentGivenAt :: "timestamp option"
  birthDate :: "timestamp option"
  city :: "string option"
  street :: "string option"
  postalCode :: "string option"
  houseNumber :: "string option"
  preferredFood :: "string option"
  feedback :: "string option"
  country :: "string option"
  discountCode :: string
  createdAt :: timestamp
  updatedAt :: timestamp

text \<open>The single administrator row and the audit log of login attempts.\<close>

record owner =
  owner_id :: string
  owner_email :: string
  owner_name :: string
  owner_accessCode :: string
  owner_password :: string
  lastLogin :: "timestamp option"
  totpEnabled :: bool

record deviceInfo =
  ipAddress :: string
  location :: string
  userAgent :: string
  device_country :: string
  device_city :: string

text \<open>A row of the login audit log, with the columns the login handler writes. The user
  agent is written for a failed attempt only.\<close>

record ownerLoginSession =
  session_ownerId :: string
  isSuccessful :: bool
  loginAt :: timestamp
  session_ipAddress :: string
  session_location :: string
  session_userAgent :: "string option"
  session_country :: string
  session_city :: string

text \<open>The store: customers in insertion order, one \<open>MessageSubscription\<close> row per
  entry of \<open>subscriptions\<close> (the id of the customer it belongs to), owners, sessions.\<close>

record database =
  customers :: "customer list"
  subscriptions :: "string list"
  owners :: "owner list"
  ownerLoginSessions :: "ownerLoginSession list"

text \<open>Everything a handler throws, as a value.\<close>

datatype error =
    ZodError
  | P2002
  | P2025
  | GenerationFailed
  | SMS_NOT_CONFIGURED
  | EMAIL_NOT_CONFIGURED
  | TransportFailure

section \<open>The request's surroundings\<close>

text \<open>
  What a request reads from outside the repository: the validators of the schema
  library, the date parser, the random sources, the clock, the id generator, the process
  environment and the two transports. \<open>Math_random_toString36 i\<close> is the string that
  the \<open>i\<close>-th evaluation of \<open>Math.random().toString(36)\<close> yields in this request.
\<close>

record env =
  is_email :: "string \<Rightarrow> bool"
  is_cuid :: "string \<Rightarrow> bool"
  parse_date :: "string \<Rightarrow> js_date"
  Math_random_toString36 :: "nat \<Rightarrow> string"
  entropy :: nat
  now :: timestamp
  cuid :: string
  TWILIO_ACCOUNT_SID :: "string option"
  TWILIO_AUTH_TOKEN :: "string option"
  TWILIO_MESSAGING_SERVICE_SID :: "string option"
  SMTP_HOST :: "string option"
  SMTP_PORT :: "string option"
  SMTP_USER :: "string option"
  SMTP_PASS :: "string option"
  SMTP_FROM :: "string option"
  twilio_messages_create :: "string \<Rightarrow> string \<Rightarrow> bool"
  sendMail :: "string \<Rightarrow> string \<Rightarrow> bool"
  JWT_SECRET :: "string option"
  jwt_sign :: "string \<Rightarrow> string \<Rightarrow> string \<Rightarrow> string \<Rightarrow> string"
  device :: deviceInfo

text \<open>JavaScript truthiness of a possibly absent string: \<open>null\<close>, \<open>undefined\<close> and
  the empty string are falsy.\<close>

definition truthy :: "string option \<Rightarrow> bool" where
  "truthy v = (case v of None \<Rightarrow> False | Some s \<Rightarrow> s \<noteq> [])"

text \<open>The string behind a value that was tested truthy.\<close>

definition string_value :: "string option \<Rightarrow> string" where
  "string_value v = (case v of None \<Rightarrow> [] | Some s \<Rightarrow> s)"

section \<open>Persistence operations\<close>

definition findUnique_phoneNumber :: "database \<Rightarrow> string \<Rightarrow> customer option" where
  "findUnique_phoneNumber db p = find (\<lambda>c. phoneNumber c = p) (customers db)"

definition findUnique_discountCode :: "database \<Rightarrow> string \<Rightarrow> customer option" where
  "findUnique_discountCode db d = find (\<lambda>c. discountCode c = d) (customers db)"

definition findUnique_id :: "database \<Rightarrow> string \<Rightarrow> customer option" where
  "findUnique_id db i = find (\<lambda>c. cid c = i) (customers db)"

text \<open>\<open>prisma.customer.create\<close>: the insert fails with \<open>P2002\<close> when the primary key
  or one of the two unique indexes (\<open>phoneNumber\<close>, \<open>discountCode\<close>) is already taken.\<close>

definition customer_create :: "database \<Rightarrow> customer \<Rightarrow> error + (customer \<times> database)" where
  "customer_create db c =
     (if findUnique_id db (cid c) \<noteq> None
         \<or> findUnique_phoneNumber db (phoneNumber c) \<noteq> None
         \<or> findUnique_discountCode db (discountCode c) \<noteq> None
      then Inl P2002
      else Inr (c, db\<lparr>customers := customers db @ [c]\<rparr>))"

text \<open>\<open>prisma.customer.update({ where: { id }, data })\<close>: the row with that id is
  rewritten by \<open>f\<close> and its \<open>updatedAt\<close> is stamped; \<open>P2025\<close> when there is no such
  row.\<close>

definition customer_update ::
    "database \<Rightarrow> timestamp \<Rightarrow> string \<Rightarrow> (customer \<Rightarrow> customer) \<Rightarrow> error + (customer \<times> database)" where
  "customer_update db t i f =
     (case findUnique_id db i of
        None \<Rightarrow> Inl P2025
      | Some c \<Rightarrow>
          let c' = (f c)\<lparr>updatedAt := t\<rparr>
          in Inr (c', db\<lparr>customers := map (\<lambda>x. if cid x = i then (f x)\<lparr>updatedAt := t\<rparr> else x) (customers db)\<rparr>))"

section \<open>Discount codes\<close>

text \<open>\<open>s.substring(a, b)\<close> and \<open>s.toUpperCase()\<close> on ASCII strings.\<close>

definition substring :: "nat \<Rightarrow> nat \<Rightarrow> string \<Rightarrow> string" where
  "substring a b s = take (max a b - min a b) (drop (min a b) s)"

definition upper_char :: "char \<Rightarrow> char" where
  "upper_char c =
     (case map_of (zip ''abcdefghijklmnopqrstuvwxyz'' ''ABCDEFGHIJKLMNOPQRSTUVWXYZ'') c of
        Some u \<Rightarrow> u
      | None \<Rightarrow> c)"

definition toUpperCase :: "string \<Rightarrow> string" where
  "toUpperCase s = map upper_char s"

definition prefix :: string where
  "prefix = ''RC10-''"

text \<open>One draw: \<open>`${prefix}${Math.random().toString(36).substring(2, 8).toUpperCase()}`\<close>.\<close>

definition draw_code :: "env \<Rightarrow> nat \<Rightarrow> string" where
  "draw_code e i = prefix @ toUpperCase (substring 2 8 (Math_random_toString36 e i))"

text \<open>The loop \<open>for (let i = 0; i < 5; i += 1)\<close> of \<open>generateUniqueDiscountCode\<close>,
  from iteration \<open>i\<close> on.\<close>

function generateUniqueDiscountCode_from :: "env \<Rightarrow> database \<Rightarrow> nat \<Rightarrow> error + string" where
  "generateUniqueDiscountCode_from e db i =
     (if i < 5 then
        (let code = draw_code e i in
         case findUnique_discountCode db code of
           None \<Rightarrow> Inr code
         | Some existing \<Rightarrow> generateUniqueDiscountCode_from e db (i + 1))
      else Inl GenerationFailed)"
  by pat_completeness auto
termination
  by (relation "measure (\<lambda>(e, db, i). 5 - i)") auto

definition generateUniqueDiscountCode :: "env \<Rightarrow> database \<Rightarrow> error + string" where
  "generateUniqueDiscountCode e db = generateUniqueDiscountCode_from e db 0"

section \<open>Request bodies and their schemas\<close>

text \<open>A request body is a JSON object: a finite map from keys to values.\<close>

datatype json = JString string | JBoolean bool | JNumber int | JNull

type_synonym body = "string \<rightharpoonup> json"

fun str :: "json option \<Rightarrow> string option" where
  "str (Some (JString s)) = Some s"
| "str _ = None"

definition string_of :: "json option \<Rightarrow> string" where
  "string_of v = (case str v of Some s \<Rightarrow> s | None \<Rightarrow> [])"

text \<open>\<open>z.string()\<close> with a refinement \<open>P\<close>, and the same followed by \<open>.optional()\<close>
  (a missing key passes; \<open>null\<close> does not).\<close>

definition required :: "(string \<Rightarrow> bool) \<Rightarrow> json option \<Rightarrow> bool" where
  "required P v = (case str v of Some s \<Rightarrow> P s | None \<Rightarrow> False)"

definition optional :: "(string \<Rightarrow> bool) \<Rightarrow> json option \<Rightarrow> bool" where
  "optional P v = (v = None \<or> required P v)"

text \<open>A boolean read off a JSON value; \<open>None\<close> is \<open>undefined\<close>.\<close>

fun bool_of :: "json option \<Rightarrow> bool option" where
  "bool_of (Some (JBoolean v)) = Some v"
| "bool_of _ = None"

text \<open>The keys that \<open>registrationSchema\<close> declares. The object that \<open>z.object(...).parse\<close>
  returns has the declared keys only: every other key of the body is dropped.\<close>

definition registrationSchema_keys :: "string list" where
  "registrationSchema_keys =
     [''firstName'', ''lastName'', ''country'', ''phoneNumber'', ''email'', ''birthDate'',
      ''city'', ''street'', ''postalCode'', ''houseNumber'', ''preferredFood'', ''feedback'']"

definition strip :: "string list \<Rightarrow> body \<Rightarrow> body" where
  "strip keys b = (\<lambda>k. if k \<in> set keys then b k else None)"

text \<open>What the registration handler reads from the parsed object \<open>data\<close>: the twelve
  declared keys, and \<open>data.consentEmail\<close> and \<open>data.consentSms\<close>.\<close>

record registration =
  data_firstName :: string
  data_lastName :: string
  data_country :: string
  data_phoneNumber :: string
  data_email :: "string option"
  data_birthDate :: "string option"
  data_city :: "string option"
  data_street :: "string option"
  data_postalCode :: "string option"
  data_houseNumber :: "string option"
  data_preferredFood :: "string option"
  data_feedback :: "string option"
  data_consentEmail :: "bool option"
  data_consentSms :: "bool option"

definition registrationSchema_ok :: "env \<Rightarrow> body \<Rightarrow> bool" where
  "registrationSchema_ok e b \<longleftrightarrow>
     required (\<lambda>s. 1 \<le> length s) (b ''firstName'') \<and>
     required (\<lambda>s. 1 \<le> length s) (b ''lastName'') \<and>
     required (\<lambda>s. length s = 2) (b ''country'') \<and>
     required (\<lambda>s. 6 \<le> length s \<and> length s \<le> 20) (b ''phoneNumber'') \<and>
     optional (is_email e) (b ''email'') \<and>
     optional (\<lambda>s. True) (b ''birthDate'') \<and>
     optional (\<lambda>s. True) (b ''city'') \<and>
     optional (\<lambda>s. True) (b ''street'') \<and>
     optional (\<lambda>s. True) (b ''postalCode'') \<and>
     optional (\<lambda>s. True) (b ''houseNumber'') \<and>
     optional (\<lambda>s. True) (b ''preferredFood'') \<and>
     optional (\<lambda>s. True) (b ''feedback'')"

definition registrationSchema_parse :: "env \<Rightarrow> body \<Rightarrow> error + registration" where
  "registrationSchema_parse e b =
     (if registrationSchema_ok e b then
        (let data = strip registrationSchema_keys b in
         Inr \<lparr> data_firstName = string_of (data ''firstName''),
               data_lastName = string_of (data ''lastName''),
               data_country = string_of (data ''country''),
               data_phoneNumber = string_of (data ''phoneNumber''),
               data_email = str (data ''email''),
               data_birthDate = str (data ''birthDate''),
               data_city = str (data ''city''),
               data_street = str (data ''street''),
               data_postalCode = str (data ''postalCode''),
               data_houseNumber = str (data ''houseNumber''),
               data_preferredFood = str (data ''preferredFood''),
               data_feedback = str (data ''feedback''),
               data_consentEmail = bool_of (data ''consentEmail''),
               data_consentSms = bool_of (data ''consentSms'') \<rparr>)
      else Inl ZodError)"

datatype channel = Phone | Email

text \<open>\<open>z.enum(['phone', 'email'])\<close>.\<close>

definition channel_of :: "json option \<Rightarrow> channel option" where
  "channel_of v =
     (case str v of
        Some s \<Rightarrow> if s = ''phone'' then Some Phone else if s = ''email'' then Some Email else None
      | None \<Rightarrow> None)"

definition verificationSendSchema_parse :: "env \<Rightarrow> body \<Rightarrow> error + (string \<times> channel)" where
  "verificationSendSchema_parse e b =
     (case channel_of (b ''type'') of
        Some t \<Rightarrow>
          if required (is_cuid e) (b ''customerId'') then Inr (string_of (b ''customerId''), t)
          else Inl ZodError
      | None \<Rightarrow> Inl ZodError)"

definition verificationConfirmSchema_parse ::
    "env \<Rightarrow> body \<Rightarrow> error + (string \<times> channel \<times> string)" where
  "verificationConfirmSchema_parse e b =
     (case channel_of (b ''type'') of
        Some t \<Rightarrow>
          if required (is_cuid e) (b ''customerId'') \<and> required (\<lambda>s. length s = 4) (b ''code'')
          then Inr (string_of (b ''customerId''), t, string_of (b ''code''))
          else Inl ZodError
      | None \<Rightarrow> Inl ZodError)"

definition ownerLoginSchema_parse :: "env \<Rightarrow> body \<Rightarrow> error + (string \<times> string \<times> string)" where
  "ownerLoginSchema_parse e b =
     (if required (is_email e) (b ''email'')
         \<and> required (\<lambda>s. 6 \<le> length s \<and> length s \<le> 25) (b ''accessCode'')
         \<and> required (\<lambda>s. 6 \<le> length s \<and> length s \<le> 100) (b ''password'')
      then Inr (string_of (b ''email''), string_of (b ''accessCode''), string_of (b ''password''))
      else Inl ZodError)"

section \<open>Responses\<close>

text \<open>The message literals of the handlers, named by what they say.\<close>

datatype message =
    Invalid_date
  | Already_registered_and_verified
  | Continue_verification
  | Registration_succeeded_verification_required
  | Invalid_data
  | Already_registered
  | Server_error
  | Customer_not_found
  | Email_missing
  | Already_verified_by channel
  | Code_sent_to channel
  | SMS_gateway_not_configured
  | SMTP_server_not_configured
  | Server_error_sending_code
  | Invalid_or_expired_code
  | Verification_completed channel
  | Server_error_confirming_code

text \<open>A JSON response: the HTTP status and the keys a handler may set; \<open>None\<close> is a key
  that is absent (or \<open>undefined\<close>, which the serialiser omits).\<close>

record response =
  http_status :: nat
  message :: message
  status :: "string option"
  customerId :: "string option"
  res_discountCode :: "string option"
  isFullyVerified :: "bool option"
  res_isPhoneVerified :: "bool option"
  res_isEmailVerified :: "bool option"
  res_type :: "channel option"

definition reply :: "nat \<Rightarrow> message \<Rightarrow> response" where
  "reply code m =
     \<lparr> http_status = code, message = m, status = None, customerId = None,
       res_discountCode = None, isFullyVerified = None, res_isPhoneVerified = None,
       res_isEmailVerified = None, res_type = None \<rparr>"

section \<open>Registration\<close>

text \<open>\<open>x || false\<close> for a possibly undefined boolean.\<close>

fun or_false :: "bool option \<Rightarrow> bool" where
  "or_false None = False"
| "or_false (Some v) = v"

text \<open>\<open>data.birthDate ? new Date(data.birthDate) : undefined\<close>.\<close>

definition birthDate_of :: "env \<Rightarrow> registration \<Rightarrow> js_date option" where
  "birthDate_of e data =
     (if truthy (data_birthDate data) then Some (parse_date e (string_value (data_birthDate data)))
      else None)"

text \<open>The row that \<open>prisma.customer.create\<close> is asked to insert. Columns the call does
  not name take their defaults: a generated id, null codes, false channel flags, null
  consent time, the current time for both timestamps.\<close>

definition new_customer :: "env \<Rightarrow> registration \<Rightarrow> js_date option \<Rightarrow> string \<Rightarrow> customer" where
  "new_customer e data bd code =
     \<lparr> cid = cuid e,
       firstName = data_firstName data,
       lastName = data_lastName data,
       phoneNumber = data_phoneNumber data,
       email = data_email data,
       isVerified = False,
       phoneVerificationCode = None,
       emailVerificationCode = None,
       isPhoneVerified = False,
       isEmailVerified = False,
       consentEmail = or_false (data_consentEmail data),
       consentSms = or_false (data_consentSms data),
       consentGivenAt = None,
       birthDate = (case bd of Some (Date t) \<Rightarrow> Some t | _ \<Rightarrow> None),
       city = data_city data,
       street = data_street data,
       postalCode = data_postalCode data,
       houseNumber = data_houseNumber data,
       preferredFood = data_preferredFood data,
       feedback = data_feedback data,
       country = Some (data_country data),
       discountCode = code,
       createdAt = now e,
       updatedAt = now e \<rparr>"

text \<open>The \<open>catch\<close> block of the handler, run against the store as it is when the error
  is thrown. On \<open>P2002\<close> it looks the phone number of the raw body up again.\<close>

definition register_catch :: "error \<Rightarrow> body \<Rightarrow> database \<Rightarrow> response \<times> database" where
  "register_catch err b db =
     (if err = ZodError then (reply 400 Invalid_data, db)
      else if err = P2002 then
        (let existing = findUnique_phoneNumber db (string_of (b ''phoneNumber''))
         in ((reply 200 Already_registered)
               \<lparr> status := Some (if (case existing of Some c \<Rightarrow> isVerified c | None \<Rightarrow> False)
                                 then ''verified'' else ''pending_verification''),
                 customerId := map_option cid existing \<rparr>, db))
      else (reply 500 Server_error, db))"

text \<open>
  \<open>POST /api/register\<close>. The handler reads the store (the lookup by phone number, the
  uniqueness checks of the code generator) and later writes it (the insert) in separate
  calls; \<open>others\<close> is what concurrent requests do to the store between the two. A
  request that runs alone has \<open>others = id\<close>.
\<close>

definition api_register_interleaved ::
    "env \<Rightarrow> (database \<Rightarrow> database) \<Rightarrow> body \<Rightarrow> database \<Rightarrow> response \<times> database" where
  "api_register_interleaved e others b db =
     (case registrationSchema_parse e b of
        Inl err \<Rightarrow> register_catch err b db
      | Inr data \<Rightarrow>
          let bd = birthDate_of e data in
          if bd = Some InvalidDate then (reply 400 Invalid_date, db)
          else
            (case findUnique_phoneNumber db (data_phoneNumber data) of
               Some existingCustomer \<Rightarrow>
                 if isVerified existingCustomer
                 then ((reply 200 Already_registered_and_verified)
                         \<lparr> status := Some ''verified'',
                           res_discountCode := Some (discountCode existingCustomer) \<rparr>, db)
                 else ((reply 200 Continue_verification)
                         \<lparr> status := Some ''pending_verification'',
                           customerId := Some (cid existingCustomer) \<rparr>, db)
             | None \<Rightarrow>
                 (case generateUniqueDiscountCode e db of
                    Inl err \<Rightarrow> register_catch err b db
                  | Inr code \<Rightarrow>
                      (case customer_create (others db) (new_customer e data bd code) of
                         Inl err \<Rightarrow> register_catch err b (others db)
                       | Inr (customer, db') \<Rightarrow>
                           ((reply 202 Registration_succeeded_verification_required)
                              \<lparr> status := Some ''verification_required'',
                                customerId := Some (cid customer) \<rparr>, db')))))"

definition api_register :: "env \<Rightarrow> body \<Rightarrow> database \<Rightarrow> response \<times> database" where
  "api_register e b db = api_register_interleaved e id b db"

section \<open>Sending a verification code\<close>

text \<open>\<open>n.toString()\<close> for a natural number: its decimal digits.\<close>

definition digit_char :: "nat \<Rightarrow> char" where
  "digit_char d = ''0123456789'' ! (d mod 10)"

function toString :: "nat \<Rightarrow> string" where
  "toString n = (if n < 10 then [digit_char n] else toString (n div 10) @ [digit_char n])"
  by pat_completeness auto
termination
  by (relation "measure id") auto

text \<open>\<open>crypto.randomInt(lo, hi)\<close>: an integer of \<open>[lo, hi)\<close>, taken from the request's
  entropy.\<close>

definition crypto_randomInt :: "env \<Rightarrow> nat \<Rightarrow> nat \<Rightarrow> nat" where
  "crypto_randomInt e lo hi = lo + entropy e mod (hi - lo)"

definition generateVerificationCode :: "env \<Rightarrow> string" where
  "generateVerificationCode e = toString (crypto_randomInt e 1000 10000)"

text \<open>The two transport clients exist only when their settings do.\<close>

definition twilioClient :: "env \<Rightarrow> bool" where
  "twilioClient e \<longleftrightarrow> truthy (TWILIO_ACCOUNT_SID e) \<and> truthy (TWILIO_AUTH_TOKEN e)"

definition smtpEnabled :: "env \<Rightarrow> bool" where
  "smtpEnabled e \<longleftrightarrow>
     truthy (SMTP_HOST e) \<and> truthy (SMTP_PORT e) \<and> truthy (SMTP_USER e) \<and> truthy (SMTP_PASS e)
     \<and> truthy (SMTP_FROM e)"

definition mailTransporter :: "env \<Rightarrow> bool" where
  "mailTransporter e \<longleftrightarrow> smtpEnabled e"

text \<open>\<open>sendVerificationCode(type, recipient, code)\<close>. The transports are handed the code;
  the fixed text around it is left out. A transport that is configured may still fail.\<close>

definition sendVerificationCode :: "env \<Rightarrow> channel \<Rightarrow> string \<Rightarrow> string \<Rightarrow> error + unit" where
  "sendVerificationCode e t recipient code =
     (case t of
        Phone \<Rightarrow>
          if \<not> twilioClient e \<or> \<not> truthy (TWILIO_MESSAGING_SERVICE_SID e) then Inl SMS_NOT_CONFIGURED
          else if twilio_messages_create e recipient code then Inr () else Inl TransportFailure
      | Email \<Rightarrow>
          if \<not> mailTransporter e \<or> \<not> truthy (SMTP_FROM e) then Inl EMAIL_NOT_CONFIGURED
          else if sendMail e recipient code then Inr () else Inl TransportFailure)"

definition send_catch :: "error \<Rightarrow> message" where
  "send_catch err =
     (if err = SMS_NOT_CONFIGURED then SMS_gateway_not_configured
      else if err = EMAIL_NOT_CONFIGURED then SMTP_server_not_configured
      else Server_error_sending_code)"

text \<open>The handlers' locals \<open>storedCode\<close> and \<open>isAlreadyVerified\<close>: the code column
  and the verified flag of the selected channel.\<close>

definition storedCode :: "channel \<Rightarrow> customer \<Rightarrow> string option" where
  "storedCode t customer =
     (case t of Phone \<Rightarrow> phoneVerificationCode customer | Email \<Rightarrow> emailVerificationCode customer)"

definition isAlreadyVerified :: "channel \<Rightarrow> customer \<Rightarrow> bool" where
  "isAlreadyVerified t customer =
     (case t of Phone \<Rightarrow> isPhoneVerified customer | Email \<Rightarrow> isEmailVerified customer)"

text \<open>The tail of the handler, from the already-verified test on: store the code, then
  dispatch it.\<close>

definition send_store_and_dispatch ::
    "env \<Rightarrow> database \<Rightarrow> string \<Rightarrow> channel \<Rightarrow> string \<Rightarrow> (customer \<Rightarrow> customer) \<Rightarrow> bool \<Rightarrow> string
      \<Rightarrow> response \<times> database" where
  "send_store_and_dispatch e db i t recipient updateData already code =
     (if already then (reply 200 (Already_verified_by t), db)
      else
        (case customer_update db (now e) i updateData of
           Inl err \<Rightarrow> (reply 500 (send_catch err), db)
         | Inr (row, db') \<Rightarrow>
             (case sendVerificationCode e t recipient code of
                Inl err \<Rightarrow> (reply 500 (send_catch err), db')
              | Inr u \<Rightarrow> ((reply 200 (Code_sent_to t))\<lparr> res_type := Some t \<rparr>, db'))))"

text \<open>\<open>POST /api/verify/send\<close>.\<close>

definition api_verify_send :: "env \<Rightarrow> body \<Rightarrow> database \<Rightarrow> response \<times> database" where
  "api_verify_send e b db =
     (case verificationSendSchema_parse e b of
        Inl err \<Rightarrow> (reply 400 Invalid_data, db)
      | Inr (i, t) \<Rightarrow>
          (case findUnique_id db i of
             None \<Rightarrow> (reply 404 Customer_not_found, db)
           | Some customer \<Rightarrow>
               let code = generateVerificationCode e in
               (case t of
                  Phone \<Rightarrow>
                    send_store_and_dispatch e db i t (phoneNumber customer)
                      (\<lambda>row. row\<lparr> phoneVerificationCode := Some code \<rparr>)
                      (isAlreadyVerified t customer) code
                | Email \<Rightarrow>
                    if \<not> truthy (email customer) then (reply 400 Email_missing, db)
                    else
                      send_store_and_dispatch e db i t (string_value (email customer))
                        (\<lambda>row. row\<lparr> emailVerificationCode := Some code \<rparr>)
                        (isAlreadyVerified t customer) code)))"

section \<open>Confirming a verification code\<close>

definition isPhoneVerifiedAfter :: "channel \<Rightarrow> customer \<Rightarrow> bool" where
  "isPhoneVerifiedAfter t customer = (if t = Phone then True else isPhoneVerified customer)"

definition isEmailVerifiedAfter :: "channel \<Rightarrow> customer \<Rightarrow> bool" where
  "isEmailVerifiedAfter t customer = (if t = Email then True else isEmailVerified customer)"

text \<open>The \<open>updateData\<close> object of the handler, built from the row as it was read, as the
  change it makes to the row it is applied to.\<close>

definition confirm_updateData :: "env \<Rightarrow> channel \<Rightarrow> customer \<Rightarrow> customer \<Rightarrow> customer" where
  "confirm_updateData e t customer row =
     (let r1 = (case t of
                  Phone \<Rightarrow> row\<lparr> isPhoneVerified := True, phoneVerificationCode := None \<rparr>
                | Email \<Rightarrow> row\<lparr> isEmailVerified := True, emailVerificationCode := None \<rparr>)
      in if isPhoneVerifiedAfter t customer \<and> isEmailVerifiedAfter t customer then
           (let r2 = r1\<lparr> isVerified := True \<rparr>
            in if consentEmail customer \<or> consentSms customer
               then r2\<lparr> consentGivenAt := Some (now e) \<rparr> else r2)
         else r1)"

text \<open>\<open>POST /api/verify/confirm\<close>. The row is read without its relations, so
  \<open>customer.subscription\<close> is always \<open>undefined\<close> and the update that completes the
  verification always carries the nested \<open>subscriptions: { create: {} }\<close>, which inserts
  a subscription row for the customer together with the update.\<close>

definition api_verify_confirm :: "env \<Rightarrow> body \<Rightarrow> database \<Rightarrow> response \<times> database" where
  "api_verify_confirm e b db =
     (case verificationConfirmSchema_parse e b of
        Inl err \<Rightarrow> (reply 400 Invalid_data, db)
      | Inr (i, t, code) \<Rightarrow>
          (case findUnique_id db i of
             None \<Rightarrow> (reply 404 Customer_not_found, db)
           | Some customer \<Rightarrow>
               if isAlreadyVerified t customer
               then ((reply 200 (Already_verified_by t))\<lparr> isFullyVerified := Some (isVerified customer) \<rparr>, db)
               else if \<not> truthy (storedCode t customer) \<or> storedCode t customer \<noteq> Some code
               then (reply 400 Invalid_or_expired_code, db)
               else
                 (case customer_update db (now e) i (confirm_updateData e t customer) of
                    Inl err \<Rightarrow> (reply 500 Server_error_confirming_code, db)
                  | Inr (updatedCustomer, db') \<Rightarrow>
                      ((reply 200 (Verification_completed t))
                         \<lparr> isFullyVerified := Some (isVerified updatedCustomer),
                           res_discountCode := (if isVerified updatedCustomer
                                                then Some (discountCode updatedCustomer) else None),
                           res_isPhoneVerified := Some (isPhoneVerified updatedCustomer),
                           res_isEmailVerified := Some (isEmailVerified updatedCustomer) \<rparr>,
                       if isPhoneVerifiedAfter t customer \<and> isEmailVerifiedAfter t customer
                       then db'\<lparr> subscriptions := subscriptions db' @ [i] \<rparr> else db'))))"

section \<open>Administrator login\<close>

text \<open>\<open>ADMIN_CREDENTIALS\<close>. The password holds a backslash and a quote, written by
  code; the name is Cyrillic, given as its UTF-8 bytes.\<close>

definition ADMIN_email :: string where
  "ADMIN_email = ''sushi.master.admin.2024@secure-icon.com''"

definition ADMIN_accessCode :: string where
  "ADMIN_accessCode = ''SUSHI-MASTER-2024-X9K7''"

definition ADMIN_password :: string where
  "ADMIN_password =
     ''SushiMaster2024!@#$%^&*()_+{}|:<>?[]'' @ [CHR 0x5C] @ '';'' @ [CHR 0x27] @ '',./''"

definition ADMIN_name :: string where
  "ADMIN_name = map char_of [208, 147, 208, 187, 208, 176, 208, 178, 208, 189, 209, 139, 208, 185, 32, 208, 176, 208, 180, 208, 188, 208, 184, 208, 189, 208, 184, 209, 129, 209, 130, 209, 128, 208, 176, 209, 130, 208, 190, 209, 128 :: nat]"

record login_response =
  login_status :: nat
  needs2FA :: "bool option"
  success :: "bool option"
  token :: "string option"
  res_owner :: "(string \<times> string \<times> string) option"

text \<open>\<open>prisma.owner.upsert({ where: { email }, update, create })\<close>.\<close>

definition owner_upsert ::
    "database \<Rightarrow> string \<Rightarrow> (owner \<Rightarrow> owner) \<Rightarrow> owner \<Rightarrow> owner \<times> database" where
  "owner_upsert db em upd cre =
     (case find (\<lambda>x. owner_email x = em) (owners db) of
        Some x \<Rightarrow> (upd x, db\<lparr> owners := map (\<lambda>y. if owner_email y = em then upd y else y) (owners db) \<rparr>)
      | None \<Rightarrow> (cre, db\<lparr> owners := owners db @ [cre] \<rparr>))"

definition admin_row :: "timestamp option \<Rightarrow> owner" where
  "admin_row t =
     \<lparr> owner_id = ''admin-001'', owner_email = ADMIN_email, owner_name = ADMIN_name,
       owner_accessCode = ADMIN_accessCode, owner_password = ADMIN_password,
       lastLogin = t, totpEnabled = False \<rparr>"

text \<open>The two writes to the audit log: \<open>prisma.ownerLoginSession.create\<close> after a
  failed attempt (with the user agent) and after a passed password check (without it).\<close>

definition log_failed_session :: "env \<Rightarrow> owner \<Rightarrow> database \<Rightarrow> database" where
  "log_failed_session e ow db =
     db\<lparr> ownerLoginSessions := ownerLoginSessions db @
           [\<lparr> session_ownerId = owner_id ow, isSuccessful = False, loginAt = now e,
              session_ipAddress = ipAddress (device e), session_location = location (device e),
              session_userAgent = Some (userAgent (device e)),
              session_country = device_country (device e),
              session_city = device_city (device e) \<rparr>] \<rparr>"

definition log_successful_session :: "env \<Rightarrow> owner \<Rightarrow> database \<Rightarrow> database" where
  "log_successful_session e ow db =
     db\<lparr> ownerLoginSessions := ownerLoginSessions db @
           [\<lparr> session_ownerId = owner_id ow, isSuccessful = True, loginAt = now e,
              session_ipAddress = ipAddress (device e), session_location = location (device e),
              session_userAgent = None,
              session_country = device_country (device e),
              session_city = device_city (device e) \<rparr>] \<rparr>"

text \<open>\<open>jwt.sign({ id, email, name }, process.env.JWT_SECRET, { expiresIn: '1d' })\<close>: the
  library throws when the secret is missing or empty, and signs otherwise.\<close>

definition jwt_sign_with_secret :: "env \<Rightarrow> string \<Rightarrow> string \<Rightarrow> string \<Rightarrow> string option" where
  "jwt_sign_with_secret e i em n =
     (if truthy (JWT_SECRET e) then Some (jwt_sign e (string_value (JWT_SECRET e)) i em n)
      else None)"

text \<open>\<open>POST /api/owner/login\<close>. An error thrown by \<open>jwt.sign\<close> is caught by the
  handler's \<open>catch\<close>, which answers 500; the owner row and the audit log have been
  written by then.\<close>

definition api_owner_login :: "env \<Rightarrow> body \<Rightarrow> database \<Rightarrow> login_response \<times> database" where
  "api_owner_login e b db =
     (case ownerLoginSchema_parse e b of
        Inl err \<Rightarrow>
          (\<lparr> login_status = 400, needs2FA = None, success = Some False, token = None,
             res_owner = None \<rparr>, db)
      | Inr (em, accessCode, password) \<Rightarrow>
          if em \<noteq> ADMIN_email \<or> accessCode \<noteq> ADMIN_accessCode \<or> password \<noteq> ADMIN_password
          then
            (let (ow, db1) = owner_upsert db ADMIN_email (\<lambda>x. x) (admin_row None)
             in (\<lparr> login_status = 401, needs2FA = None, success = Some False, token = None,
                   res_owner = None \<rparr>, log_failed_session e ow db1))
          else
            (let (ow, db1) = owner_upsert db ADMIN_email (\<lambda>x. x\<lparr> lastLogin := Some (now e) \<rparr>)
                               (admin_row (Some (now e)));
                 db2 = log_successful_session e ow db1
             in if totpEnabled ow
                then (\<lparr> login_status = 200, needs2FA = Some True, success = None, token = None,
                        res_owner = None \<rparr>, db2)
                else
                  (case jwt_sign_with_secret e (owner_id ow) (owner_email ow) (owner_name ow) of
                     None \<Rightarrow>
                       (\<lparr> login_status = 500, needs2FA = None, success = Some False, token = None,
                          res_owner = None \<rparr>, db2)
                   | Some signed \<Rightarrow>
                       (\<lparr> login_status = 200, needs2FA = None, success = Some True,
                          token = Some signed,
                          res_owner = Some (owner_id ow, owner_email ow, owner_name ow) \<rparr>, db2))))"

section \<open>Sequences of calls\<close>

text \<open>The three customer-facing endpoints, each call with the surroundings it runs in,
  and the store after a sequence of calls that run one after the other.\<close>

datatype call = Register env body | Send env body | Confirm env body

definition perform :: "call \<Rightarrow> database \<Rightarrow> database" where
  "perform c db =
     (case c of
        Register e b \<Rightarrow> snd (api_register e b db)
      | Send e b \<Rightarrow> snd (api_verify_send e b db)
      | Confirm e b \<Rightarrow> snd (api_verify_confirm e b db))"

definition run :: "call list \<Rightarrow> database \<Rightarrow> database" where
  "run cs db = foldl (\<lambda>d c. perform c d) db cs"

text \<open>A customer without an email address that holds no email code and is verified
  neither by email nor as a whole.\<close>

definition no_email_unverified :: "customer \<Rightarrow> bool" where
  "no_email_unverified c \<longleftrightarrow>
     truthy (email c) \<or> (emailVerificationCode c = None \<and> \<not> isEmailVerified c \<and> \<not> isVerified c)"


section \<open>Concrete scenarios\<close>

text \<open>Surroundings in which no transport is configured, every draw of the code generator
  yields \<open>0.4fzyo82mvyr\<close> and \<open>crypto.randomInt\<close> yields 1234.\<close>

definition env0 :: env where
  "env0 =
     \<lparr> is_email = (\<lambda>s. CHR ''@'' \<in> set s),
       is_cuid = (\<lambda>s. take 1 s = ''c'' \<and> 9 \<le> length s),
       parse_date = (\<lambda>s. if s = ''1990-01-01'' then Date 631152000000 else InvalidDate),
       Math_random_toString36 = (\<lambda>i. ''0.4fzyo82mvyr''),
       entropy = 234,
       now = 1000,
       cuid = ''cjld2cjxh0000qzrmn831i7rn'',
       TWILIO_ACCOUNT_SID = None, TWILIO_AUTH_TOKEN = None, TWILIO_MESSAGING_SERVICE_SID = None,
       SMTP_HOST = None, SMTP_PORT = None, SMTP_USER = None, SMTP_PASS = None, SMTP_FROM = None,
       twilio_messages_create = (\<lambda>to text. True),
       sendMail = (\<lambda>to text. True),
       JWT_SECRET = Some ''s3cret'',
       jwt_sign = (\<lambda>secret i em n. ''jwt:'' @ i),
       device = \<lparr> ipAddress = ''203.0.113.7'', location = ''Riga'', userAgent = ''Mozilla/5.0'',
                  device_country = ''LV'', device_city = ''Riga'' \<rparr> \<rparr>"

text \<open>The same surroundings without a signing secret.\<close>

definition env_no_secret :: env where
  "env_no_secret = env0\<lparr> JWT_SECRET := None \<rparr>"

text \<open>The same, with \<open>Math.random()\<close> returning 0.5, whose base-36 form is \<open>0.i\<close>.\<close>

definition env_half :: env where
  "env_half = env0\<lparr> Math_random_toString36 := (\<lambda>i. ''0.i'') \<rparr>"

definition empty_store :: database where
  "empty_store = \<lparr> customers = [], subscriptions = [], owners = [], ownerLoginSessions = [] \<rparr>"

definition store_of :: "customer list \<Rightarrow> database" where
  "store_of cs = \<lparr> customers = cs, subscriptions = [], owners = [], ownerLoginSessions = [] \<rparr>"

definition body_alice :: body where
  "body_alice =
     [''firstName'' \<mapsto> JString ''A'', ''lastName'' \<mapsto> JString ''B'',
      ''country'' \<mapsto> JString ''US'', ''phoneNumber'' \<mapsto> JString ''+15551234567'']"

definition body_consent :: body where
  "body_consent = body_alice(''consentEmail'' \<mapsto> JBoolean True, ''consentSms'' \<mapsto> JBoolean True)"

definition body_bad_date :: body where
  "body_bad_date = body_alice(''birthDate'' \<mapsto> JString ''not-a-date'')"

definition data_alice :: registration where
  "data_alice =
     \<lparr> data_firstName = ''A'', data_lastName = ''B'', data_country = ''US'',
       data_phoneNumber = ''+15551234567'', data_email = None, data_birthDate = None,
       data_city = None, data_street = None, data_postalCode = None, data_houseNumber = None,
       data_preferredFood = None, data_feedback = None, data_consentEmail = None,
       data_consentSms = None \<rparr>"

text \<open>The row that registering \<open>body_alice\<close> in \<open>env0\<close> creates, and variants of it.\<close>

definition alice :: customer where
  "alice =
     \<lparr> cid = ''cjld2cjxh0000qzrmn831i7rn'', firstName = ''A'', lastName = ''B'',
       phoneNumber = ''+15551234567'', email = None, isVerified = False,
       phoneVerificationCode = None, emailVerificationCode = None, isPhoneVerified = False,
       isEmailVerified = False, consentEmail = False, consentSms = False,
       consentGivenAt = None, birthDate = None, city = None, street = None, postalCode = None,
       houseNumber = None, preferredFood = None, feedback = None, country = Some ''US'',
       discountCode = ''RC10-4FZYO8'', createdAt = 1000, updatedAt = 1000 \<rparr>"

definition bob :: customer where
  "bob = alice\<lparr> cid := ''cbob0000000000000000000001'', phoneNumber := ''+15550000001'' \<rparr>"

definition alice_phone_verified :: customer where
  "alice_phone_verified = alice\<lparr> isPhoneVerified := True \<rparr>"

definition alice_pending :: customer where
  "alice_pending = alice\<lparr> phoneVerificationCode := Some ''1234'' \<rparr>"

text \<open>A fully verified customer with the phone number of \<open>body_alice\<close>, as a concurrent
  registration followed by both confirmations leaves it.\<close>

definition alice_verified_elsewhere :: customer where
  "alice_verified_elsewhere =
     alice\<lparr> cid := ''cother00000000000000000001'', email := Some ''a@b.co'',
            discountCode := ''RC10-ZZZZZZ'', isPhoneVerified := True, isEmailVerified := True,
            isVerified := True \<rparr>"

definition concurrent_registration :: "database \<Rightarrow> database" where
  "concurrent_registration db = db\<lparr> customers := customers db @ [alice_verified_elsewhere] \<rparr>"








definition confirm_body :: "string \<Rightarrow> string \<Rightarrow> body" where
  "confirm_body t code =
     [''customerId'' \<mapsto> JString ''cjld2cjxh0000qzrmn831i7rn'', ''type'' \<mapsto> JString t,
      ''code'' \<mapsto> JString code]"

definition send_body :: "string \<Rightarrow> body" where
  "send_body t = [''customerId'' \<mapsto> JString ''cjld2cjxh0000qzrmn831i7rn'', ''type'' \<mapsto> JString t]"

definition admin_body :: body where
  "admin_body =
     [''email'' \<mapsto> JString ADMIN_email, ''accessCode'' \<mapsto> JString ADMIN_accessCode,
      ''password'' \<mapsto> JString ADMIN_password]"

definition store_with_owner :: "owner \<Rightarrow> database" where
  "store_with_owner ow =
     \<lparr> customers = [], subscriptions = [], owners = [ow], ownerLoginSessions = [] \<rparr>"

text \<open>Alice registers, asks for her phone code, confirms it, then tries the email channel.\<close>

definition alice_session :: "call list" where
  "alice_session =
     [Register env0 body_alice, Send env0 (send_body ''phone''),
      Confirm env0 (confirm_body ''phone'' ''1234''), Send env0 (send_body ''email''),
      Confirm env0 (confirm_body ''email'' ''1234'')]"


section \<open>Facts about the persistence operations\<close>

lemma find_None_notin:
  "find (\<lambda>c. f c = v) xs = None \<Longrightarrow> v \<notin> set (map f xs)"
  by (auto simp: find_None_iff)

lemma find_map_update:
  assumes "\<And>x. cid (g x) = cid x"
  shows "find (\<lambda>c. cid c = j) (map (\<lambda>x. if cid x = i then g x else x) xs) =
         map_option (\<lambda>x. if cid x = i then g x else x) (find (\<lambda>c. cid c = j) xs)"
  using assms by (induction xs) auto

lemma findUnique_id_cid: "findUnique_id db i = Some c \<Longrightarrow> cid c = i"
  by (auto simp: findUnique_id_def find_Some_iff)

lemma findUnique_id_after_update:
  assumes "\<And>x. cid (f x) = cid x"
  shows "findUnique_id
           (db\<lparr>customers := map (\<lambda>x. if cid x = i then (f x)\<lparr>updatedAt := t\<rparr> else x) (customers db)\<rparr>) j =
         map_option (\<lambda>x. if cid x = i then (f x)\<lparr>updatedAt := t\<rparr> else x) (findUnique_id db j)"
  unfolding findUnique_id_def
  using find_map_update[of "\<lambda>x. (f x)\<lparr>updatedAt := t\<rparr>" j i "customers db"] assms
  by simp

lemma customer_update_found:
  "findUnique_id db i = Some c \<Longrightarrow>
   customer_update db t i f =
     Inr ((f c)\<lparr>updatedAt := t\<rparr>,
          db\<lparr>customers := map (\<lambda>x. if cid x = i then (f x)\<lparr>updatedAt := t\<rparr> else x) (customers db)\<rparr>)"
  by (simp add: customer_update_def Let_def)

lemma findUnique_id_single: "cid c = i \<Longrightarrow> findUnique_id (store_of [c]) i = Some c"
  by (simp add: findUnique_id_def store_of_def)

lemma customer_create_distinct:
  assumes "customer_create db c = Inr (c', db')"
    and "distinct (map phoneNumber (customers db))"
  shows "distinct (map phoneNumber (customers db'))"
proof -
  from assms(1) have n: "findUnique_phoneNumber db (phoneNumber c) = None"
    and d: "db' = db\<lparr>customers := customers db @ [c]\<rparr>"
    by (auto simp: customer_create_def split: if_splits)
  from n have "phoneNumber c \<notin> set (map phoneNumber (customers db))"
    unfolding findUnique_phoneNumber_def by (rule find_None_notin)
  with assms(2) d show ?thesis by simp
qed

section \<open>The discount code generator\<close>

lemma generate_from_not_present:
  "generateUniqueDiscountCode_from e db i = Inr code \<Longrightarrow> findUnique_discountCode db code = None"
proof (induction e db i rule: generateUniqueDiscountCode_from.induct)
  case (1 e db i)
  then show ?case
    by (auto simp: Let_def split: if_splits option.splits)
qed

lemma generate_from_fails:
  "(\<forall>j. i \<le> j \<and> j < 5 \<longrightarrow> findUnique_discountCode db (draw_code e j) \<noteq> None) \<Longrightarrow>
   generateUniqueDiscountCode_from e db i = Inl GenerationFailed"
proof (induction e db i rule: generateUniqueDiscountCode_from.induct)
  case (1 e db i)
  show ?case
  proof (cases "i < 5")
    case True
    with "1.prems" obtain a where a: "findUnique_discountCode db (draw_code e i) = Some a" by auto
    have "generateUniqueDiscountCode_from e db (i + 1) = Inl GenerationFailed"
      using "1.IH"[OF True refl a] "1.prems" by simp
    with True a show ?thesis by (simp add: Let_def)
  next
    case False
    then show ?thesis by simp
  qed
qed

lemma generate_from_succeeds:
  "i \<le> j \<Longrightarrow> j < 5 \<Longrightarrow> findUnique_discountCode db (draw_code e j) = None \<Longrightarrow>
   \<exists>code. generateUniqueDiscountCode_from e db i = Inr code"
proof (induction e db i rule: generateUniqueDiscountCode_from.induct)
  case (1 e db i)
  from "1.prems" have lt: "i < 5" by simp
  show ?case
  proof (cases "findUnique_discountCode db (draw_code e i)")
    case None
    with lt show ?thesis by (simp add: Let_def)
  next
    case (Some a)
    with "1.prems" have "i \<noteq> j" by auto
    with "1.prems" have "i + 1 \<le> j" by simp
    from "1.IH"[OF lt refl Some this "1.prems"(2,3)] lt Some show ?thesis by (simp add: Let_def)
  qed
qed

lemma generate_from_drawn:
  "generateUniqueDiscountCode_from e db i = Inr code \<Longrightarrow> \<exists>j. i \<le> j \<and> j < 5 \<and> code = draw_code e j"
proof (induction e db i rule: generateUniqueDiscountCode_from.induct)
  case (1 e db i)
  show ?case
  proof (cases "i < 5")
    case True
    show ?thesis
    proof (cases "findUnique_discountCode db (draw_code e i)")
      case None
      with True "1.prems" show ?thesis by (auto simp: Let_def)
    next
      case (Some a)
      with True "1.prems" have "generateUniqueDiscountCode_from e db (i + 1) = Inr code"
        by (simp add: Let_def)
      with "1.IH"[OF True refl Some] obtain j where "i + 1 \<le> j" "j < 5" "code = draw_code e j"
        by blast
      then show ?thesis by (intro exI[of _ j]) simp
    qed
  next
    case False
    with "1.prems" show ?thesis by simp
  qed
qed

text \<open>The generator never returns a code that is in the store, fails when its five draws
  all collide, and returns a code when one of them does not. A code it returns is one of
  the five draws; a draw has six characters after the prefix when the base-36 string it
  is cut from has at least eight.\<close>

lemma generate_drawn:
  "generateUniqueDiscountCode e db = Inr code \<Longrightarrow> \<exists>j<5. code = draw_code e j"
  unfolding generateUniqueDiscountCode_def by (drule generate_from_drawn) auto

lemma draw_code_length:
  "length (draw_code e i) = 5 + min 6 (length (Math_random_toString36 e i) - 2)"
  by (simp add: draw_code_def prefix_def toUpperCase_def substring_def)

lemma generate_not_present:
  "generateUniqueDiscountCode e db = Inr code \<Longrightarrow> findUnique_discountCode db code = None"
  unfolding generateUniqueDiscountCode_def by (rule generate_from_not_present)

lemma generate_fails:
  "(\<forall>j<5. findUnique_discountCode db (draw_code e j) \<noteq> None) \<Longrightarrow>
   generateUniqueDiscountCode e db = Inl GenerationFailed"
  unfolding generateUniqueDiscountCode_def by (rule generate_from_fails) simp

lemma generate_succeeds:
  "j < 5 \<Longrightarrow> findUnique_discountCode db (draw_code e j) = None \<Longrightarrow>
   \<exists>code. generateUniqueDiscountCode e db = Inr code"
  unfolding generateUniqueDiscountCode_def by (rule generate_from_succeeds[of 0 j]) simp_all

section \<open>The scenarios, evaluated\<close>

lemma env0_fields:
  "cuid env0 = ''cjld2cjxh0000qzrmn831i7rn''" "now env0 = 1000" "entropy env0 = 234"
  "is_cuid env0 = (\<lambda>s. take 1 s = ''c'' \<and> 9 \<le> length s)"
  "is_email env0 = (\<lambda>s. CHR ''@'' \<in> set s)"
  "Math_random_toString36 env0 = (\<lambda>i. ''0.4fzyo82mvyr'')"
  by (simp_all add: env0_def)

lemma parse_body_alice: "registrationSchema_parse env0 body_alice = Inr data_alice"
  by (simp add: registrationSchema_parse_def registrationSchema_ok_def required_def optional_def
      string_of_def strip_def registrationSchema_keys_def body_alice_def data_alice_def)

lemma parse_body_consent: "registrationSchema_parse env0 body_consent = Inr data_alice"
  by (simp add: registrationSchema_parse_def registrationSchema_ok_def required_def optional_def
      string_of_def strip_def registrationSchema_keys_def body_consent_def body_alice_def
      data_alice_def)

lemma birthDate_alice: "birthDate_of env0 data_alice = None"
  by (simp add: birthDate_of_def data_alice_def truthy_def)

lemma new_customer_alice: "new_customer env0 data_alice None ''RC10-4FZYO8'' = alice"
  by (simp add: new_customer_def data_alice_def alice_def env0_fields)

lemma draw_env0: "draw_code env0 i = ''RC10-4FZYO8''"
  by (simp add: draw_code_def env0_fields prefix_def toUpperCase_def upper_char_def substring_def)

lemma generate_env0_empty: "generateUniqueDiscountCode env0 empty_store = Inr ''RC10-4FZYO8''"
  by (simp add: generateUniqueDiscountCode_def draw_env0 findUnique_discountCode_def empty_store_def)

lemma parse_confirm_phone:
  "verificationConfirmSchema_parse env0 (confirm_body ''phone'' ''1234'') =
     Inr (''cjld2cjxh0000qzrmn831i7rn'', Phone, ''1234'')"
  by (simp add: verificationConfirmSchema_parse_def channel_of_def required_def string_of_def
      confirm_body_def env0_fields)

lemma parse_confirm_phone_wrong:
  "verificationConfirmSchema_parse env0 (confirm_body ''phone'' ''0000'') =
     Inr (''cjld2cjxh0000qzrmn831i7rn'', Phone, ''0000'')"
  by (simp add: verificationConfirmSchema_parse_def channel_of_def required_def string_of_def
      confirm_body_def env0_fields)

lemma parse_confirm_email:
  "verificationConfirmSchema_parse env0 (confirm_body ''email'' ''1234'') =
     Inr (''cjld2cjxh0000qzrmn831i7rn'', Email, ''1234'')"
  by (simp add: verificationConfirmSchema_parse_def channel_of_def required_def string_of_def
      confirm_body_def env0_fields)

section \<open>Registration\<close>

lemma parse_phoneNumber:
  "registrationSchema_parse e b = Inr data \<Longrightarrow> data_phoneNumber data = string_of (b ''phoneNumber'')"
  by (auto simp: registrationSchema_parse_def strip_def registrationSchema_keys_def Let_def
      split: if_splits)

text \<open>The parsed object never has the consent keys, whatever the body holds.\<close>

lemma parse_consent_undefined:
  assumes "registrationSchema_parse e b = Inr data"
  shows "data_consentEmail data = None" "data_consentSms data = None"
  using assms
  by (auto simp: registrationSchema_parse_def strip_def registrationSchema_keys_def Let_def
      split: if_splits)

lemma register_fresh:
  assumes parse: "registrationSchema_parse e b = Inr data"
    and bd: "birthDate_of e data \<noteq> Some InvalidDate"
    and phone: "findUnique_phoneNumber db (data_phoneNumber data) = None"
    and gen: "generateUniqueDiscountCode e db = Inr code"
    and fresh: "findUnique_id db (cuid e) = None"
  shows "api_register e b db =
           ((reply 202 Registration_succeeded_verification_required)
              \<lparr> status := Some ''verification_required'', customerId := Some (cuid e) \<rparr>,
            db\<lparr> customers := customers db @ [new_customer e data (birthDate_of e data) code] \<rparr>)"
proof -
  have dc: "findUnique_discountCode db code = None"
    using gen by (rule generate_not_present)
  have cr: "customer_create db (new_customer e data (birthDate_of e data) code) =
              Inr (new_customer e data (birthDate_of e data) code,
                   db\<lparr> customers := customers db @ [new_customer e data (birthDate_of e data) code] \<rparr>)"
    using phone dc fresh by (simp add: customer_create_def new_customer_def)
  have "cid (new_customer e data (birthDate_of e data) code) = cuid e"
    by (simp add: new_customer_def)
  with cr show ?thesis
    using parse bd phone gen
    by (simp add: api_register_def api_register_interleaved_def Let_def)
qed

lemma register_existing:
  assumes parse: "registrationSchema_parse e b = Inr data"
    and bd: "birthDate_of e data \<noteq> Some InvalidDate"
    and ex: "findUnique_phoneNumber db (data_phoneNumber data) = Some c"
  shows "api_register_interleaved e others b db =
           (if isVerified c
            then (reply 200 Already_registered_and_verified)
                   \<lparr> status := Some ''verified'', res_discountCode := Some (discountCode c) \<rparr>
            else (reply 200 Continue_verification)
                   \<lparr> status := Some ''pending_verification'', customerId := Some (cid c) \<rparr>, db)"
  using assms by (simp add: api_register_interleaved_def Let_def)

lemma register_raced:
  assumes parse: "registrationSchema_parse e b = Inr data"
    and bd: "birthDate_of e data \<noteq> Some InvalidDate"
    and nex: "findUnique_phoneNumber db (data_phoneNumber data) = None"
    and gen: "generateUniqueDiscountCode e db = Inr code"
    and ex: "findUnique_phoneNumber (others db) (data_phoneNumber data) = Some c"
  shows "api_register_interleaved e others b db =
           ((reply 200 Already_registered)
              \<lparr> status := Some (if isVerified c then ''verified'' else ''pending_verification''),
                customerId := Some (cid c) \<rparr>, others db)"
proof -
  have cr: "customer_create (others db) (new_customer e data (birthDate_of e data) code) = Inl P2002"
    using ex by (simp add: customer_create_def new_customer_def)
  have "register_catch P2002 b (others db) =
          ((reply 200 Already_registered)
              \<lparr> status := Some (if isVerified c then ''verified'' else ''pending_verification''),
                customerId := Some (cid c) \<rparr>, others db)"
    using ex parse_phoneNumber[OF parse] by (simp add: register_catch_def Let_def)
  with cr show ?thesis
    using parse bd nex gen by (simp add: api_register_interleaved_def Let_def)
qed

lemma register_catch_store: "snd (register_catch err b db) = db"
  by (simp add: register_catch_def Let_def)

lemma register_store_cases:
  "snd (api_register_interleaved e others b db) = db
   \<or> snd (api_register_interleaved e others b db) = others db
   \<or> (\<exists>c c'. customer_create (others db) c = Inr (c', snd (api_register_interleaved e others b db)))"
  by (auto simp: api_register_interleaved_def Let_def register_catch_store
      split: sum.splits option.splits prod.splits)

lemma register_distinct:
  assumes "distinct (map phoneNumber (customers db))"
    and "distinct (map phoneNumber (customers (others db)))"
  shows "distinct (map phoneNumber (customers (snd (api_register_interleaved e others b db))))"
  using register_store_cases[of e others b db] assms customer_create_distinct by metis

text \<open>
  Claim C1, as amended. A body that passes \<open>registrationSchema\<close>, whose birth date (if any)
  parses, whose phone number matches no customer, for which one of the five draws of the
  code generator is unused and whose generated id is new: the endpoint appends one customer
  row with \<open>isVerified = false\<close> and that phone number, and answers 202 with status
  \<open>verification_required\<close> and the id of the new row; the answer carries no discount code.
\<close>

theorem register_new_phone:
  assumes parse: "registrationSchema_parse e b = Inr data"
    and bd: "birthDate_of e data \<noteq> Some InvalidDate"
    and phone: "findUnique_phoneNumber db (data_phoneNumber data) = None"
    and draw: "j < 5" "findUnique_discountCode db (draw_code e j) = None"
    and fresh: "findUnique_id db (cuid e) = None"
  shows "\<exists>code row.
           generateUniqueDiscountCode e db = Inr code
           \<and> row = new_customer e data (birthDate_of e data) code
           \<and> api_register e b db =
               ((reply 202 Registration_succeeded_verification_required)
                  \<lparr> status := Some ''verification_required'', customerId := Some (cid row) \<rparr>,
                db\<lparr> customers := customers db @ [row] \<rparr>)
           \<and> isVerified row = False
           \<and> phoneNumber row = data_phoneNumber data
           \<and> res_discountCode (fst (api_register e b db)) = None"
proof -
  from draw obtain code where gen: "generateUniqueDiscountCode e db = Inr code"
    using generate_succeeds by blast
  define row where "row = new_customer e data (birthDate_of e data) code"
  have res: "api_register e b db =
               ((reply 202 Registration_succeeded_verification_required)
                  \<lparr> status := Some ''verification_required'', customerId := Some (cid row) \<rparr>,
                db\<lparr> customers := customers db @ [row] \<rparr>)"
    using register_fresh[OF parse bd phone gen fresh] by (simp add: row_def new_customer_def)
  have "isVerified row = False" "phoneNumber row = data_phoneNumber data"
    by (simp_all add: row_def new_customer_def)
  moreover have "res_discountCode (fst (api_register e b db)) = None"
    unfolding res by (simp add: reply_def)
  ultimately show ?thesis using gen res row_def by blast
qed

text \<open>Registering \<open>body_alice\<close> into the empty store.\<close>

theorem register_new_phone_witness:
  "api_register env0 body_alice empty_store =
     ((reply 202 Registration_succeeded_verification_required)
        \<lparr> status := Some ''verification_required'', customerId := Some ''cjld2cjxh0000qzrmn831i7rn'' \<rparr>,
      store_of [alice])
   \<and> isVerified alice = False"
proof -
  have 1: "birthDate_of env0 data_alice \<noteq> Some InvalidDate" by (simp add: birthDate_alice)
  have 2: "findUnique_phoneNumber empty_store (data_phoneNumber data_alice) = None"
    by (simp add: findUnique_phoneNumber_def empty_store_def)
  have 3: "(0::nat) < 5" by simp
  have 4: "findUnique_discountCode empty_store (draw_code env0 0) = None"
    by (simp add: findUnique_discountCode_def empty_store_def)
  have 5: "findUnique_id empty_store (cuid env0) = None"
    by (simp add: findUnique_id_def empty_store_def)
  from register_new_phone[OF parse_body_alice 1 2 3 4 5]
  obtain code row where g: "generateUniqueDiscountCode env0 empty_store = Inr code"
    and r: "row = new_customer env0 data_alice (birthDate_of env0 data_alice) code"
    and res: "api_register env0 body_alice empty_store =
               ((reply 202 Registration_succeeded_verification_required)
                  \<lparr> status := Some ''verification_required'', customerId := Some (cid row) \<rparr>,
                empty_store\<lparr> customers := customers empty_store @ [row] \<rparr>)"
    by blast
  from g have "code = ''RC10-4FZYO8''" by (simp add: generate_env0_empty)
  with r have "row = alice" by (simp add: birthDate_alice new_customer_alice)
  with res show ?thesis
    by (simp add: empty_store_def store_of_def alice_def)
qed

text \<open>The claim as it was stated fails when the five draws all collide: the body is valid
  and its phone number is new, yet the answer is 500 and no row is created. It also fails
  for a body that passes the schema with a birth date that does not parse: the answer is
  400.\<close>

theorem register_generation_failure:
  "registrationSchema_parse env0 body_alice = Inr data_alice
   \<and> findUnique_phoneNumber (store_of [bob]) (data_phoneNumber data_alice) = None
   \<and> api_register env0 body_alice (store_of [bob]) = (reply 500 Server_error, store_of [bob])
   \<and> registrationSchema_ok env0 body_bad_date
   \<and> api_register env0 body_bad_date empty_store = (reply 400 Invalid_date, empty_store)"
proof -
  have ok: "registrationSchema_ok env0 body_bad_date"
    by (simp add: registrationSchema_ok_def required_def optional_def body_bad_date_def
        body_alice_def)
  have bad: "api_register env0 body_bad_date empty_store = (reply 400 Invalid_date, empty_store)"
    using ok
    by (simp add: api_register_def api_register_interleaved_def registrationSchema_parse_def
        strip_def registrationSchema_keys_def birthDate_of_def truthy_def string_value_def
        body_bad_date_def env0_def Let_def)
  have ph: "findUnique_phoneNumber (store_of [bob]) (data_phoneNumber data_alice) = None"
    by (simp add: findUnique_phoneNumber_def store_of_def bob_def data_alice_def)
  have "\<forall>j<5. findUnique_discountCode (store_of [bob]) (draw_code env0 j) \<noteq> None"
    by (simp add: draw_env0 findUnique_discountCode_def store_of_def bob_def alice_def)
  then have gen: "generateUniqueDiscountCode env0 (store_of [bob]) = Inl GenerationFailed"
    by (rule generate_fails)
  have "api_register env0 body_alice (store_of [bob]) = (reply 500 Server_error, store_of [bob])"
    using ph gen
    by (simp add: api_register_def api_register_interleaved_def parse_body_alice birthDate_alice
        register_catch_def)
  with ph ok bad show ?thesis by (simp add: parse_body_alice)
qed

text \<open>
  Claim C2, as amended. For a body that passes the schema and the date check: when the phone
  number is found by the existence check, the store is left as it is and the answer is
  \<open>verified\<close> with the existing discount code for a verified customer and
  \<open>pending_verification\<close> with the customer's id otherwise; when the check finds nothing
  but the number is in the store by the time of the insert, the insert is refused, nothing
  is added, and the answer carries the status \<open>verified\<close> or \<open>pending_verification\<close> of
  the customer found then together with that customer's id (and no discount code). Phone
  numbers that were pairwise distinct stay so.
\<close>

theorem register_existing_phone:
  assumes parse: "registrationSchema_parse e b = Inr data"
    and bd: "birthDate_of e data \<noteq> Some InvalidDate"
  shows "(\<forall>c. findUnique_phoneNumber db (data_phoneNumber data) = Some c \<longrightarrow>
            api_register_interleaved e others b db =
              (if isVerified c
               then (reply 200 Already_registered_and_verified)
                      \<lparr> status := Some ''verified'', res_discountCode := Some (discountCode c) \<rparr>
               else (reply 200 Continue_verification)
                      \<lparr> status := Some ''pending_verification'', customerId := Some (cid c) \<rparr>, db))
       \<and> (\<forall>c code. findUnique_phoneNumber db (data_phoneNumber data) = None
              \<and> generateUniqueDiscountCode e db = Inr code
              \<and> findUnique_phoneNumber (others db) (data_phoneNumber data) = Some c \<longrightarrow>
            api_register_interleaved e others b db =
              ((reply 200 Already_registered)
                 \<lparr> status := Some (if isVerified c then ''verified'' else ''pending_verification''),
                   customerId := Some (cid c) \<rparr>, others db))
       \<and> (distinct (map phoneNumber (customers db))
              \<and> distinct (map phoneNumber (customers (others db))) \<longrightarrow>
            distinct (map phoneNumber (customers (snd (api_register_interleaved e others b db)))))"
  using register_existing[OF parse bd] register_raced[OF parse bd] register_distinct
  by blast

text \<open>A second registration of Alice's number, alone and racing with another one.\<close>

theorem register_existing_phone_witness:
  "api_register_interleaved env0 id body_alice (store_of [alice]) =
     ((reply 200 Continue_verification)
        \<lparr> status := Some ''pending_verification'', customerId := Some ''cjld2cjxh0000qzrmn831i7rn'' \<rparr>,
      store_of [alice])
   \<and> snd (api_register_interleaved env0 concurrent_registration body_alice empty_store) =
       store_of [alice_verified_elsewhere]
   \<and> distinct (map phoneNumber (customers (snd (api_register_interleaved env0 id body_alice (store_of [alice])))))"
proof -
  have bd: "birthDate_of env0 data_alice \<noteq> Some InvalidDate" by (simp add: birthDate_alice)
  have ex: "findUnique_phoneNumber (store_of [alice]) (data_phoneNumber data_alice) = Some alice"
    by (simp add: findUnique_phoneNumber_def store_of_def alice_def data_alice_def)
  have nex: "findUnique_phoneNumber empty_store (data_phoneNumber data_alice) = None"
    by (simp add: findUnique_phoneNumber_def empty_store_def)
  have ex': "findUnique_phoneNumber (concurrent_registration empty_store) (data_phoneNumber data_alice)
               = Some alice_verified_elsewhere"
    by (simp add: findUnique_phoneNumber_def concurrent_registration_def empty_store_def
        alice_verified_elsewhere_def alice_def data_alice_def)
  have d: "distinct (map phoneNumber (customers (store_of [alice])))"
    "distinct (map phoneNumber (customers (id (store_of [alice]))))"
    by (simp_all add: store_of_def)
  note a = register_existing_phone[where db="store_of [alice]" and others=id, OF parse_body_alice bd]
  note b = register_existing_phone[where db=empty_store and others=concurrent_registration,
      OF parse_body_alice bd]
  from a ex have 1: "api_register_interleaved env0 id body_alice (store_of [alice]) =
     ((reply 200 Continue_verification)
        \<lparr> status := Some ''pending_verification'', customerId := Some ''cjld2cjxh0000qzrmn831i7rn'' \<rparr>,
      store_of [alice])"
    by (simp add: alice_def)
  from b nex generate_env0_empty ex'
  have "snd (api_register_interleaved env0 concurrent_registration body_alice empty_store) =
          concurrent_registration empty_store"
    by simp
  then have 2: "snd (api_register_interleaved env0 concurrent_registration body_alice empty_store) =
       store_of [alice_verified_elsewhere]"
    by (simp add: concurrent_registration_def empty_store_def store_of_def)
  from a d have 3: "distinct (map phoneNumber (customers (snd (api_register_interleaved env0 id body_alice (store_of [alice])))))"
    by blast
  from 1 2 3 show ?thesis by blast
qed

text \<open>The claim as it was stated fails on the racing path: the customer found after the
  refused insert is fully verified, and the answer has the status \<open>verified\<close> and the
  customer's id, but not the discount code.\<close>

theorem register_race_omits_code:
  "isVerified alice_verified_elsewhere
   \<and> findUnique_phoneNumber empty_store ''+15551234567'' = None
   \<and> fst (api_register_interleaved env0 concurrent_registration body_alice empty_store) =
       (reply 200 Already_registered)
         \<lparr> status := Some ''verified'', customerId := Some ''cother00000000000000000001'' \<rparr>
   \<and> res_discountCode (fst (api_register_interleaved env0 concurrent_registration body_alice empty_store))
       = None
   \<and> snd (api_register_interleaved env0 concurrent_registration body_alice empty_store) =
       store_of [alice_verified_elsewhere]"
proof -
  have bd: "birthDate_of env0 data_alice \<noteq> Some InvalidDate" by (simp add: birthDate_alice)
  have nex: "findUnique_phoneNumber empty_store (data_phoneNumber data_alice) = None"
    by (simp add: findUnique_phoneNumber_def empty_store_def)
  have ex': "findUnique_phoneNumber (concurrent_registration empty_store) (data_phoneNumber data_alice)
               = Some alice_verified_elsewhere"
    by (simp add: findUnique_phoneNumber_def concurrent_registration_def empty_store_def
        alice_verified_elsewhere_def alice_def data_alice_def)
  have res: "api_register_interleaved env0 concurrent_registration body_alice empty_store =
           ((reply 200 Already_registered)
              \<lparr> status := Some (if isVerified alice_verified_elsewhere then ''verified''
                                else ''pending_verification''),
                customerId := Some (cid alice_verified_elsewhere) \<rparr>,
            concurrent_registration empty_store)"
    by (rule register_raced[where others=concurrent_registration,
        OF parse_body_alice bd nex generate_env0_empty ex'])
  have v: "isVerified alice_verified_elsewhere" by (simp add: alice_verified_elsewhere_def)
  have i: "cid alice_verified_elsewhere = ''cother00000000000000000001''"
    by (simp add: alice_verified_elsewhere_def)
  have s: "concurrent_registration empty_store = store_of [alice_verified_elsewhere]"
    by (simp add: concurrent_registration_def empty_store_def store_of_def)
  have n: "findUnique_phoneNumber empty_store ''+15551234567'' = None"
    by (simp add: findUnique_phoneNumber_def empty_store_def)
  show ?thesis unfolding res by (simp add: v i s n reply_def)
qed

text \<open>
  Claim C3. The generator is meant to return \<open>RC10-\<close> followed by six characters. When
  \<open>Math.random()\<close> returns 0.5 its base-36 form is \<open>0.i\<close>, \<open>substring(2, 8)\<close> has
  one character to take, and the code returned is \<open>RC10-I\<close>: one character after
  the prefix.
\<close>

theorem generate_short_code:
  "generateUniqueDiscountCode env_half empty_store = Inr (prefix @ ''I'')"
  by (simp add: generateUniqueDiscountCode_def draw_code_def env_half_def prefix_def
      toUpperCase_def upper_char_def substring_def findUnique_discountCode_def empty_store_def)

text \<open>Whatever the body, the row that registration builds has both consent flags false.\<close>

lemma new_customer_consent:
  assumes "registrationSchema_parse e b = Inr data"
  shows "consentEmail (new_customer e data bd code) = False"
    "consentSms (new_customer e data bd code) = False"
  using parse_consent_undefined[OF assms] by (simp_all add: new_customer_def)

text \<open>
  Claim C6. The created row is meant to store the consent flags as submitted. The schema
  declares neither flag, the parsed object therefore has neither, and the row is created
  with both flags false: here for a body that submits both as true.
\<close>

theorem register_drops_consent:
  "body_consent ''consentEmail'' = Some (JBoolean True)
   \<and> body_consent ''consentSms'' = Some (JBoolean True)
   \<and> api_register env0 body_consent empty_store =
       ((reply 202 Registration_succeeded_verification_required)
          \<lparr> status := Some ''verification_required'', customerId := Some ''cjld2cjxh0000qzrmn831i7rn'' \<rparr>,
        store_of [alice])
   \<and> consentEmail alice = False \<and> consentSms alice = False"
proof -
  have "api_register env0 body_consent empty_store =
     ((reply 202 Registration_succeeded_verification_required)
        \<lparr> status := Some ''verification_required'', customerId := Some (cuid env0) \<rparr>,
      empty_store\<lparr> customers := customers empty_store @ [new_customer env0 data_alice (birthDate_of env0 data_alice) ''RC10-4FZYO8''] \<rparr>)"
    by (rule register_fresh[OF parse_body_consent _ _ generate_env0_empty])
       (simp_all add: birthDate_alice findUnique_phoneNumber_def findUnique_id_def empty_store_def)
  then show ?thesis
    by (simp add: birthDate_alice new_customer_alice env0_fields empty_store_def store_of_def
        body_consent_def alice_def)
qed

section \<open>Confirming a code\<close>

lemma confirm_parse_code_length:
  "verificationConfirmSchema_parse e b = Inr (i, t, code) \<Longrightarrow> length code = 4"
  by (auto simp: verificationConfirmSchema_parse_def required_def string_of_def
      split: option.splits if_splits)

lemma cid_confirm_updateData [simp]: "cid (confirm_updateData e t customer row) = cid row"
  by (cases t) (simp_all add: confirm_updateData_def Let_def)

lemma confirm_acknowledged:
  assumes parse: "verificationConfirmSchema_parse e b = Inr (i, t, code)"
    and found: "findUnique_id db i = Some customer"
    and already: "isAlreadyVerified t customer"
  shows "api_verify_confirm e b db =
           ((reply 200 (Already_verified_by t))\<lparr> isFullyVerified := Some (isVerified customer) \<rparr>, db)"
  using assms by (cases t) (simp_all add: api_verify_confirm_def Let_def)

lemma confirm_invalid:
  assumes parse: "verificationConfirmSchema_parse e b = Inr (i, t, code)"
    and found: "findUnique_id db i = Some customer"
    and notyet: "\<not> isAlreadyVerified t customer"
    and differs: "storedCode t customer \<noteq> Some code"
  shows "api_verify_confirm e b db = (reply 400 Invalid_or_expired_code, db)"
  using assms by (cases t) (simp_all add: api_verify_confirm_def Let_def)

lemma confirm_match:
  assumes parse: "verificationConfirmSchema_parse e b = Inr (i, t, code)"
    and found: "findUnique_id db i = Some customer"
    and notyet: "\<not> isAlreadyVerified t customer"
    and match: "storedCode t customer = Some code"
  shows "api_verify_confirm e b db =
     (let row = (confirm_updateData e t customer customer)\<lparr>updatedAt := now e\<rparr>;
          db' = db\<lparr>customers := map (\<lambda>x. if cid x = i then (confirm_updateData e t customer x)\<lparr>updatedAt := now e\<rparr> else x) (customers db)\<rparr>
      in ((reply 200 (Verification_completed t))
            \<lparr> isFullyVerified := Some (isVerified row),
              res_discountCode := (if isVerified row then Some (discountCode row) else None),
              res_isPhoneVerified := Some (isPhoneVerified row),
              res_isEmailVerified := Some (isEmailVerified row) \<rparr>,
          if isPhoneVerifiedAfter t customer \<and> isEmailVerifiedAfter t customer
          then db'\<lparr> subscriptions := subscriptions db' @ [i] \<rparr> else db'))"
proof -
  have len: "length code = 4" using parse by (rule confirm_parse_code_length)
  then have tr: "truthy (Some code)" by (auto simp: truthy_def)
  show ?thesis
    using parse found notyet match tr
    by (cases t) (simp_all add: api_verify_confirm_def Let_def customer_update_found)
qed

lemma confirm_match_row:
  assumes parse: "verificationConfirmSchema_parse e b = Inr (i, t, code)"
    and found: "findUnique_id db i = Some customer"
    and notyet: "\<not> isAlreadyVerified t customer"
    and match: "storedCode t customer = Some code"
  shows "findUnique_id (snd (api_verify_confirm e b db)) i =
           Some ((confirm_updateData e t customer customer)\<lparr>updatedAt := now e\<rparr>)"
proof -
  have c: "cid customer = i" using found by (rule findUnique_id_cid)
  have "findUnique_id (db\<lparr>customers := map (\<lambda>x. if cid x = i then (confirm_updateData e t customer x)\<lparr>updatedAt := now e\<rparr> else x) (customers db)\<rparr>) i
        = Some ((confirm_updateData e t customer customer)\<lparr>updatedAt := now e\<rparr>)"
    using findUnique_id_after_update[where f="confirm_updateData e t customer" and db=db and i=i
        and t="now e" and j=i] found c
    by simp
  moreover have "\<And>d s. findUnique_id (d\<lparr>subscriptions := s\<rparr>) i = findUnique_id d i"
    by (simp add: findUnique_id_def)
  ultimately show ?thesis
    unfolding confirm_match[OF assms] by (simp add: Let_def)
qed

lemma confirm_match_response:
  assumes parse: "verificationConfirmSchema_parse e b = Inr (i, t, code)"
    and found: "findUnique_id db i = Some customer"
    and notyet: "\<not> isAlreadyVerified t customer"
    and match: "storedCode t customer = Some code"
    and row: "row = (confirm_updateData e t customer customer)\<lparr>updatedAt := now e\<rparr>"
  shows "fst (api_verify_confirm e b db) =
           (reply 200 (Verification_completed t))
            \<lparr> isFullyVerified := Some (isVerified row),
              res_discountCode := (if isVerified row then Some (discountCode row) else None),
              res_isPhoneVerified := Some (isPhoneVerified row),
              res_isEmailVerified := Some (isEmailVerified row) \<rparr>"
  unfolding confirm_match[OF parse found notyet match] by (simp add: Let_def row)

text \<open>
  Claim C4, as amended. For a confirm request that passes its schema and names an existing
  customer whose selected channel is not yet verified: if the stored code of the channel is
  absent or differs from the submitted one, the answer is 400 \<open>invalid or expired code\<close>
  and the store is unchanged; if it matches, the answer is 200, the channel's verified flag
  is set and its stored code is cleared, and every later confirm request for that customer
  and channel, whatever its code, is answered with the 200 already-verified acknowledgement
  and changes nothing.
\<close>

theorem confirm_checks_code:
  assumes parse: "verificationConfirmSchema_parse e b = Inr (i, t, code)"
    and found: "findUnique_id db i = Some customer"
    and notyet: "\<not> isAlreadyVerified t customer"
  shows "(storedCode t customer \<noteq> Some code \<longrightarrow>
            api_verify_confirm e b db = (reply 400 Invalid_or_expired_code, db))
       \<and> (storedCode t customer = Some code \<longrightarrow>
            (\<exists>r db' row.
               api_verify_confirm e b db = (r, db') \<and> http_status r = 200
               \<and> findUnique_id db' i = Some row
               \<and> isAlreadyVerified t row \<and> storedCode t row = None
               \<and> (\<forall>e' b' code'.
                     verificationConfirmSchema_parse e' b' = Inr (i, t, code') \<longrightarrow>
                     api_verify_confirm e' b' db' =
                       ((reply 200 (Already_verified_by t))\<lparr> isFullyVerified := Some (isVerified row) \<rparr>, db'))))"
proof (intro conjI impI)
  assume "storedCode t customer \<noteq> Some code"
  with parse found notyet show "api_verify_confirm e b db = (reply 400 Invalid_or_expired_code, db)"
    by (rule confirm_invalid)
next
  assume match: "storedCode t customer = Some code"
  define row where "row = (confirm_updateData e t customer customer)\<lparr>updatedAt := now e\<rparr>"
  obtain r db' where res: "api_verify_confirm e b db = (r, db')" by (cases "api_verify_confirm e b db")
  have st: "http_status r = 200"
    using res confirm_match_response[OF parse found notyet match row_def] by (simp add: reply_def)
  have fr: "findUnique_id db' i = Some row"
    using confirm_match_row[OF parse found notyet match] res by (simp add: row_def)
  have v: "isAlreadyVerified t row" and c: "storedCode t row = None"
    by (cases t; simp add: row_def confirm_updateData_def isAlreadyVerified_def storedCode_def Let_def)+
  have again: "\<forall>e' b' code'. verificationConfirmSchema_parse e' b' = Inr (i, t, code') \<longrightarrow>
      api_verify_confirm e' b' db' =
        ((reply 200 (Already_verified_by t))\<lparr> isFullyVerified := Some (isVerified row) \<rparr>, db')"
    using confirm_acknowledged[OF _ fr v] by blast
  from res st fr v c again
  show "\<exists>r db' row. api_verify_confirm e b db = (r, db') \<and> http_status r = 200
          \<and> findUnique_id db' i = Some row \<and> isAlreadyVerified t row \<and> storedCode t row = None
          \<and> (\<forall>e' b' code'. verificationConfirmSchema_parse e' b' = Inr (i, t, code') \<longrightarrow>
                api_verify_confirm e' b' db' =
                  ((reply 200 (Already_verified_by t))\<lparr> isFullyVerified := Some (isVerified row) \<rparr>, db'))"
    by blast
qed

text \<open>Alice holds the phone code 1234: a wrong code is refused, the right one accepted.\<close>

theorem confirm_checks_code_witness:
  "api_verify_confirm env0 (confirm_body ''phone'' ''0000'') (store_of [alice_pending]) =
     (reply 400 Invalid_or_expired_code, store_of [alice_pending])
   \<and> http_status (fst (api_verify_confirm env0 (confirm_body ''phone'' ''1234'') (store_of [alice_pending])))
       = 200"
proof -
  have f: "findUnique_id (store_of [alice_pending]) ''cjld2cjxh0000qzrmn831i7rn'' = Some alice_pending"
    by (rule findUnique_id_single) (simp add: alice_pending_def alice_def)
  have n: "\<not> isAlreadyVerified Phone alice_pending"
    by (simp add: isAlreadyVerified_def alice_pending_def alice_def)
  have s: "storedCode Phone alice_pending = Some ''1234''"
    by (simp add: storedCode_def alice_pending_def)
  from confirm_checks_code[OF parse_confirm_phone_wrong f n] s
  have 1: "api_verify_confirm env0 (confirm_body ''phone'' ''0000'') (store_of [alice_pending]) =
     (reply 400 Invalid_or_expired_code, store_of [alice_pending])"
    by simp
  from confirm_checks_code[OF parse_confirm_phone f n] s
  obtain r db' where "api_verify_confirm env0 (confirm_body ''phone'' ''1234'') (store_of [alice_pending]) = (r, db')"
    and "http_status r = 200"
    by blast
  then have 2: "http_status (fst (api_verify_confirm env0 (confirm_body ''phone'' ''1234'') (store_of [alice_pending]))) = 200"
    by simp
  from 1 2 show ?thesis by blast
qed

text \<open>The claim as it was stated fails at its last part: once the code 1234 has been
  confirmed, confirming 1234 again is answered 200, not with the invalid-code error.\<close>

theorem reconfirm_is_acknowledged:
  "snd (api_verify_confirm env0 (confirm_body ''phone'' ''1234'') (store_of [alice_pending])) =
     store_of [alice_phone_verified]
   \<and> api_verify_confirm env0 (confirm_body ''phone'' ''1234'') (store_of [alice_phone_verified]) =
       ((reply 200 (Already_verified_by Phone))\<lparr> isFullyVerified := Some False \<rparr>,
        store_of [alice_phone_verified])"
proof -
  have f: "findUnique_id (store_of [alice_pending]) ''cjld2cjxh0000qzrmn831i7rn'' = Some alice_pending"
    by (rule findUnique_id_single) (simp add: alice_pending_def alice_def)
  have n: "\<not> isAlreadyVerified Phone alice_pending"
    by (simp add: isAlreadyVerified_def alice_pending_def alice_def)
  have s: "storedCode Phone alice_pending = Some ''1234''"
    by (simp add: storedCode_def alice_pending_def)
  have 1: "snd (api_verify_confirm env0 (confirm_body ''phone'' ''1234'') (store_of [alice_pending])) =
     store_of [alice_phone_verified]"
    unfolding confirm_match[OF parse_confirm_phone f n s]
    by (simp add: Let_def isPhoneVerifiedAfter_def isEmailVerifiedAfter_def confirm_updateData_def
        store_of_def alice_pending_def alice_phone_verified_def alice_def env0_fields)
  have f': "findUnique_id (store_of [alice_phone_verified]) ''cjld2cjxh0000qzrmn831i7rn'' = Some alice_phone_verified"
    by (rule findUnique_id_single) (simp add: alice_phone_verified_def alice_def)
  have v: "isAlreadyVerified Phone alice_phone_verified"
    by (simp add: isAlreadyVerified_def alice_phone_verified_def)
  have 2: "api_verify_confirm env0 (confirm_body ''phone'' ''1234'') (store_of [alice_phone_verified]) =
       ((reply 200 (Already_verified_by Phone))\<lparr> isFullyVerified := Some False \<rparr>,
        store_of [alice_phone_verified])"
    using confirm_acknowledged[OF parse_confirm_phone f' v]
    by (simp add: alice_phone_verified_def alice_def)
  from 1 2 show ?thesis by blast
qed

text \<open>
  Claim C7, as amended. For a confirm request that passes its schema (a customer id, a
  channel and a code of four characters) and names an existing customer whose selected
  channel is already verified, the answer is the 200 acknowledgement with the customer's
  current \<open>isVerified\<close> flag, whatever code was submitted, and the store is left exactly
  as it was.
\<close>

theorem confirm_already_verified:
  assumes parse: "verificationConfirmSchema_parse e b = Inr (i, t, code)"
    and found: "findUnique_id db i = Some customer"
    and already: "isAlreadyVerified t customer"
  shows "api_verify_confirm e b db =
           ((reply 200 (Already_verified_by t))\<lparr> isFullyVerified := Some (isVerified customer) \<rparr>, db)"
  using assms by (rule confirm_acknowledged)

theorem confirm_already_verified_witness:
  "api_verify_confirm env0 (confirm_body ''phone'' ''0000'') (store_of [alice_phone_verified]) =
     ((reply 200 (Already_verified_by Phone))\<lparr> isFullyVerified := Some False \<rparr>,
      store_of [alice_phone_verified])"
proof -
  have f: "findUnique_id (store_of [alice_phone_verified]) ''cjld2cjxh0000qzrmn831i7rn'' = Some alice_phone_verified"
    by (rule findUnique_id_single) (simp add: alice_phone_verified_def alice_def)
  have v: "isAlreadyVerified Phone alice_phone_verified"
    by (simp add: isAlreadyVerified_def alice_phone_verified_def)
  show ?thesis
    using confirm_already_verified[OF parse_confirm_phone_wrong f v]
    by (simp add: alice_phone_verified_def alice_def)
qed

text \<open>The claim as it was stated fails for a request whose code does not have four
  characters: the schema is applied before the customer is looked up, and the request of
  an existing customer whose phone is already verified is answered 400.\<close>

theorem confirm_short_code_rejected:
  "findUnique_id (store_of [alice_phone_verified]) ''cjld2cjxh0000qzrmn831i7rn''
     = Some alice_phone_verified
   \<and> isAlreadyVerified Phone alice_phone_verified
   \<and> api_verify_confirm env0 (confirm_body ''phone'' ''123'') (store_of [alice_phone_verified]) =
       (reply 400 Invalid_data, store_of [alice_phone_verified])"
proof -
  have f: "findUnique_id (store_of [alice_phone_verified]) ''cjld2cjxh0000qzrmn831i7rn'' = Some alice_phone_verified"
    by (rule findUnique_id_single) (simp add: alice_phone_verified_def alice_def)
  have v: "isAlreadyVerified Phone alice_phone_verified"
    by (simp add: isAlreadyVerified_def alice_phone_verified_def)
  have p: "verificationConfirmSchema_parse env0 (confirm_body ''phone'' ''123'') = Inl ZodError"
    by (simp add: verificationConfirmSchema_parse_def channel_of_def required_def confirm_body_def
        env0_fields)
  have "api_verify_confirm env0 (confirm_body ''phone'' ''123'') (store_of [alice_phone_verified]) =
       (reply 400 Invalid_data, store_of [alice_phone_verified])"
    by (simp add: api_verify_confirm_def p)
  with f v show ?thesis by blast
qed

section \<open>Sending a code\<close>

lemma toString_digit: "n < 10 \<Longrightarrow> length (toString n) = 1"
  by (subst toString.simps) simp

lemma toString_step: "10 \<le> n \<Longrightarrow> length (toString n) = Suc (length (toString (n div 10)))"
  by (subst toString.simps) simp

lemma toString_four_digits:
  assumes "1000 \<le> n" "n < 10000"
  shows "length (toString n) = 4"
proof -
  have a: "10 \<le> n" "10 \<le> n div 10" "10 \<le> n div 10 div 10" "n div 10 div 10 div 10 < 10"
    using assms by simp_all
  show ?thesis
    by (simp only: toString_step[OF a(1)] toString_step[OF a(2)] toString_step[OF a(3)]
        toString_digit[OF a(4)])
qed

lemma generateVerificationCode_length: "length (generateVerificationCode e) = 4"
  unfolding generateVerificationCode_def crypto_randomInt_def
  by (rule toString_four_digits) simp_all

lemma send_dispatch_unconfigured:
  fixes f :: "customer \<Rightarrow> customer"
  assumes found: "findUnique_id db i = Some customer"
    and cidf: "\<And>x. cid (f x) = cid x"
    and fail: "sendVerificationCode e t recipient code = Inl err"
  shows "send_store_and_dispatch e db i t recipient f False code =
           (reply 500 (send_catch err),
            db\<lparr>customers := map (\<lambda>x. if cid x = i then (f x)\<lparr>updatedAt := now e\<rparr> else x) (customers db)\<rparr>)"
  using found fail by (simp add: send_store_and_dispatch_def customer_update_found)

text \<open>
  Claim C9. For a send request that passes its schema and names an existing customer whose
  selected channel is not yet verified (and who has an email address, if the channel is
  email), when the transport of that channel is not configured: the answer is the 500
  not-configured error of the channel, and the store that the request leaves behind holds
  the freshly generated four-character code in that channel's code column.
\<close>

theorem send_failure_persists_code:
  assumes parse: "verificationSendSchema_parse e b = Inr (i, t)"
    and found: "findUnique_id db i = Some customer"
    and notyet: "\<not> isAlreadyVerified t customer"
    and hasmail: "t = Email \<longrightarrow> truthy (email customer)"
    and sms: "t = Phone \<longrightarrow> \<not> twilioClient e \<or> \<not> truthy (TWILIO_MESSAGING_SERVICE_SID e)"
    and smtp: "t = Email \<longrightarrow> \<not> mailTransporter e \<or> \<not> truthy (SMTP_FROM e)"
  shows "\<exists>db' row.
           api_verify_send e b db =
             (reply 500 (case t of Phone \<Rightarrow> SMS_gateway_not_configured
                                 | Email \<Rightarrow> SMTP_server_not_configured), db')
           \<and> findUnique_id db' i = Some row
           \<and> storedCode t row = Some (generateVerificationCode e)
           \<and> length (generateVerificationCode e) = 4"
proof (cases t)
  case Phone
  define f :: "customer \<Rightarrow> customer"
    where "f = (\<lambda>row. row\<lparr> phoneVerificationCode := Some (generateVerificationCode e) \<rparr>)"
  have cidf: "\<And>x. cid (f x) = cid x" by (simp add: f_def)
  have fail: "sendVerificationCode e t (phoneNumber customer) (generateVerificationCode e)
                = Inl SMS_NOT_CONFIGURED"
    using sms Phone by (auto simp: sendVerificationCode_def)
  define db' where "db' = db\<lparr>customers := map (\<lambda>x. if cid x = i then (f x)\<lparr>updatedAt := now e\<rparr> else x) (customers db)\<rparr>"
  have res: "api_verify_send e b db = (reply 500 SMS_gateway_not_configured, db')"
    using parse found notyet Phone send_dispatch_unconfigured[OF found cidf fail]
    by (simp add: api_verify_send_def Let_def f_def db'_def send_catch_def)
  have c: "cid customer = i" using found by (rule findUnique_id_cid)
  have fr: "findUnique_id db' i = Some ((f customer)\<lparr>updatedAt := now e\<rparr>)"
    unfolding db'_def
    using findUnique_id_after_update[where f=f and db=db and i=i and t="now e" and j=i, OF cidf]
      found c by simp
  have sc: "storedCode t ((f customer)\<lparr>updatedAt := now e\<rparr>) = Some (generateVerificationCode e)"
    using Phone by (simp add: storedCode_def f_def)
  from res fr sc generateVerificationCode_length Phone show ?thesis by simp
next
  case Email
  define f :: "customer \<Rightarrow> customer"
    where "f = (\<lambda>row. row\<lparr> emailVerificationCode := Some (generateVerificationCode e) \<rparr>)"
  have cidf: "\<And>x. cid (f x) = cid x" by (simp add: f_def)
  have fail: "sendVerificationCode e t (string_value (email customer)) (generateVerificationCode e)
                = Inl EMAIL_NOT_CONFIGURED"
    using smtp Email by (auto simp: sendVerificationCode_def)
  define db' where "db' = db\<lparr>customers := map (\<lambda>x. if cid x = i then (f x)\<lparr>updatedAt := now e\<rparr> else x) (customers db)\<rparr>"
  have res: "api_verify_send e b db = (reply 500 SMTP_server_not_configured, db')"
    using parse found notyet hasmail Email send_dispatch_unconfigured[OF found cidf fail]
    by (simp add: api_verify_send_def Let_def f_def db'_def send_catch_def)
  have c: "cid customer = i" using found by (rule findUnique_id_cid)
  have fr: "findUnique_id db' i = Some ((f customer)\<lparr>updatedAt := now e\<rparr>)"
    unfolding db'_def
    using findUnique_id_after_update[where f=f and db=db and i=i and t="now e" and j=i, OF cidf]
      found c by simp
  have sc: "storedCode t ((f customer)\<lparr>updatedAt := now e\<rparr>) = Some (generateVerificationCode e)"
    using Email by (simp add: storedCode_def f_def)
  from res fr sc generateVerificationCode_length Email show ?thesis by simp
qed

lemma parse_send_phone:
  "verificationSendSchema_parse env0 (send_body ''phone'') = Inr (''cjld2cjxh0000qzrmn831i7rn'', Phone)"
  by (simp add: verificationSendSchema_parse_def channel_of_def required_def string_of_def
      send_body_def env0_fields)

lemma code_env0: "generateVerificationCode env0 = ''1234''"
  by (simp add: generateVerificationCode_def crypto_randomInt_def env0_fields digit_char_def
      toString.simps[of 1234] toString.simps[of 123] toString.simps[of 12] toString.simps[of 1])

text \<open>No transport is configured in \<open>env0\<close>: asking for Alice's phone code fails with 500,
  and the code 1234 is in her row afterwards.\<close>

theorem send_failure_persists_code_witness:
  "api_verify_send env0 (send_body ''phone'') (store_of [alice]) =
     (reply 500 SMS_gateway_not_configured, store_of [alice_pending])
   \<and> storedCode Phone alice_pending = Some ''1234''"
proof -
  have f: "findUnique_id (store_of [alice]) ''cjld2cjxh0000qzrmn831i7rn'' = Some alice"
    by (rule findUnique_id_single) (simp add: alice_def)
  have n: "\<not> isAlreadyVerified Phone alice" by (simp add: isAlreadyVerified_def alice_def)
  have m: "Phone = Email \<longrightarrow> truthy (email alice)" by simp
  have s: "Phone = Phone \<longrightarrow> \<not> twilioClient env0 \<or> \<not> truthy (TWILIO_MESSAGING_SERVICE_SID env0)"
    by (simp add: twilioClient_def truthy_def env0_def)
  have t: "Phone = Email \<longrightarrow> \<not> mailTransporter env0 \<or> \<not> truthy (SMTP_FROM env0)" by simp
  from send_failure_persists_code[OF parse_send_phone f n m s t]
  obtain db' where res: "api_verify_send env0 (send_body ''phone'') (store_of [alice]) =
      (reply 500 SMS_gateway_not_configured, db')"
    by auto
  have "db' = snd (api_verify_send env0 (send_body ''phone'') (store_of [alice]))"
    by (simp add: res)
  also have "\<dots> = store_of [alice_pending]"
    using f n
    by (simp add: api_verify_send_def parse_send_phone Let_def send_store_and_dispatch_def
        customer_update_found code_env0 store_of_def alice_pending_def alice_def env0_fields
        split: sum.splits)
  finally have "db' = store_of [alice_pending]" .
  with res show ?thesis by (simp add: storedCode_def alice_pending_def)
qed

section \<open>Administrator login\<close>

lemma owner_upsert_existing:
  "find (\<lambda>x. owner_email x = em) (owners db) = Some ow \<Longrightarrow>
   fst (owner_upsert db em upd cre) = upd ow"
  by (simp add: owner_upsert_def)

lemma login_with_credentials:
  assumes parse: "ownerLoginSchema_parse e b = Inr (ADMIN_email, ADMIN_accessCode, ADMIN_password)"
    and ow: "fst (owner_upsert db ADMIN_email (\<lambda>x. x\<lparr> lastLogin := Some (now e) \<rparr>)
                   (admin_row (Some (now e)))) = ow"
  shows "fst (api_owner_login e b db) =
           (if totpEnabled ow
            then \<lparr> login_status = 200, needs2FA = Some True, success = None, token = None,
                   res_owner = None \<rparr>
            else (case jwt_sign_with_secret e (owner_id ow) (owner_email ow) (owner_name ow) of
                    None \<Rightarrow>
                      \<lparr> login_status = 500, needs2FA = None, success = Some False, token = None,
                        res_owner = None \<rparr>
                  | Some signed \<Rightarrow>
                      \<lparr> login_status = 200, needs2FA = None, success = Some True,
                        token = Some signed,
                        res_owner = Some (owner_id ow, owner_email ow, owner_name ow) \<rparr>))"
  using assms by (auto simp: api_owner_login_def Let_def split: prod.splits option.splits)

text \<open>
  Claim C8, as amended. For a login request that passes its schema with the administrator's
  email, access code and password, and a stored owner row for that email: if the row's
  \<open>totpEnabled\<close> flag is true the answer has \<open>needs2FA = true\<close> and no token, whether or
  not a signing secret is configured; if it is false and the signing secret
  \<open>JWT_SECRET\<close> is configured, the answer is 200 and carries the session token signed
  with that secret for that owner, and no \<open>needs2FA\<close>.
\<close>

theorem owner_login_second_factor:
  assumes parse: "ownerLoginSchema_parse e b = Inr (ADMIN_email, ADMIN_accessCode, ADMIN_password)"
    and stored: "find (\<lambda>x. owner_email x = ADMIN_email) (owners db) = Some ow"
  shows "(totpEnabled ow \<longrightarrow>
            login_status (fst (api_owner_login e b db)) = 200
            \<and> needs2FA (fst (api_owner_login e b db)) = Some True
            \<and> token (fst (api_owner_login e b db)) = None)
       \<and> (\<not> totpEnabled ow \<and> truthy (JWT_SECRET e) \<longrightarrow>
            login_status (fst (api_owner_login e b db)) = 200
            \<and> token (fst (api_owner_login e b db)) =
                Some (jwt_sign e (string_value (JWT_SECRET e)) (owner_id ow) (owner_email ow)
                        (owner_name ow))
            \<and> needs2FA (fst (api_owner_login e b db)) = None)"
proof -
  have "fst (owner_upsert db ADMIN_email (\<lambda>x. x\<lparr> lastLogin := Some (now e) \<rparr>)
               (admin_row (Some (now e)))) = ow\<lparr> lastLogin := Some (now e) \<rparr>"
    using stored by (rule owner_upsert_existing)
  from login_with_credentials[OF parse this] show ?thesis
    by (simp add: jwt_sign_with_secret_def)
qed

lemma parse_admin_body:
  "ownerLoginSchema_parse env0 admin_body = Inr (ADMIN_email, ADMIN_accessCode, ADMIN_password)"
  by (simp add: ownerLoginSchema_parse_def required_def string_of_def admin_body_def env0_fields
      ADMIN_email_def ADMIN_accessCode_def ADMIN_password_def)

lemma parse_admin_body_no_secret:
  "ownerLoginSchema_parse env_no_secret admin_body =
     Inr (ADMIN_email, ADMIN_accessCode, ADMIN_password)"
  using parse_admin_body
  by (simp add: ownerLoginSchema_parse_def env_no_secret_def)

lemma find_admin_row:
  "find (\<lambda>x. owner_email x = ADMIN_email) (owners (store_with_owner ow)) =
     (if owner_email ow = ADMIN_email then Some ow else None)"
  by (simp add: store_with_owner_def)

text \<open>The administrator's credentials against a stored row with the second factor enabled,
  and against one without it, with the signing secret configured.\<close>

theorem owner_login_second_factor_witness:
  "needs2FA (fst (api_owner_login env0 admin_body
      (store_with_owner ((admin_row None)\<lparr> totpEnabled := True \<rparr>)))) = Some True
   \<and> token (fst (api_owner_login env0 admin_body
      (store_with_owner ((admin_row None)\<lparr> totpEnabled := True \<rparr>)))) = None
   \<and> token (fst (api_owner_login env0 admin_body (store_with_owner (admin_row None))))
       = Some ''jwt:admin-001''"
proof -
  have 1: "find (\<lambda>x. owner_email x = ADMIN_email)
             (owners (store_with_owner ((admin_row None)\<lparr> totpEnabled := True \<rparr>)))
           = Some ((admin_row None)\<lparr> totpEnabled := True \<rparr>)"
    by (simp add: find_admin_row admin_row_def)
  have 2: "find (\<lambda>x. owner_email x = ADMIN_email) (owners (store_with_owner (admin_row None)))
           = Some (admin_row None)"
    by (simp add: find_admin_row admin_row_def)
  have j: "jwt_sign env0 = (\<lambda>secret i em n. ''jwt:'' @ i)" "truthy (JWT_SECRET env0)"
    by (simp_all add: env0_def truthy_def)
  from owner_login_second_factor[OF parse_admin_body 1] owner_login_second_factor[OF parse_admin_body 2]
  show ?thesis by (simp add: admin_row_def j)
qed

text \<open>The claim as it was stated fails when no signing secret is configured: the
  credentials are right and the stored row has the second factor disabled, yet signing
  throws, and the answer is 500 without a token.\<close>

theorem owner_login_without_secret:
  "totpEnabled (admin_row None) = False
   \<and> login_status (fst (api_owner_login env_no_secret admin_body (store_with_owner (admin_row None))))
       = 500
   \<and> token (fst (api_owner_login env_no_secret admin_body (store_with_owner (admin_row None))))
       = None"
proof -
  have 2: "fst (owner_upsert (store_with_owner (admin_row None)) ADMIN_email
                  (\<lambda>x. x\<lparr> lastLogin := Some (now env_no_secret) \<rparr>)
                  (admin_row (Some (now env_no_secret))))
           = (admin_row None)\<lparr> lastLogin := Some (now env_no_secret) \<rparr>"
    by (rule owner_upsert_existing) (simp add: find_admin_row admin_row_def)
  have s: "jwt_sign_with_secret env_no_secret i em n = None" for i em n
    by (simp add: jwt_sign_with_secret_def env_no_secret_def truthy_def)
  from login_with_credentials[OF parse_admin_body_no_secret 2]
  show ?thesis by (simp add: admin_row_def s)
qed

section \<open>Row invariants\<close>

text \<open>A property of customer rows that the writes of the three endpoints keep is kept by
  every sequence of calls, provided customer ids are distinct.\<close>

lemma distinct_cid_found:
  assumes "distinct (map cid xs)" "find (\<lambda>c. cid c = i) xs = Some c" "x \<in> set xs" "cid x = i"
  shows "x = c"
proof -
  from assms(2) have "c \<in> set xs" "cid c = i"
    by (auto simp: find_Some_iff)
  moreover from assms(1) have "inj_on cid (set xs)"
    by (simp add: distinct_map)
  ultimately show ?thesis using assms(3,4) by (auto dest: inj_onD)
qed

lemma update_keeps:
  assumes d: "distinct (map cid xs)"
    and all: "\<forall>c\<in>set xs. P c"
    and found: "find (\<lambda>c. cid c = i) xs = Some customer"
    and step: "P customer \<Longrightarrow> P (g customer)"
  shows "\<forall>c\<in>set (map (\<lambda>x. if cid x = i then g x else x) xs). P c"
proof
  fix c assume "c \<in> set (map (\<lambda>x. if cid x = i then g x else x) xs)"
  then obtain x where x: "x \<in> set xs" and c: "c = (if cid x = i then g x else x)" by auto
  show "P c"
  proof (cases "cid x = i")
    case True
    with d found x have "x = customer" by (rule distinct_cid_found[where xs=xs and i=i])
    with True c all x step show ?thesis by simp
  next
    case False
    with c all x show ?thesis by simp
  qed
qed

lemma update_keeps_cids:
  assumes "\<And>x. cid (g x) = cid x"
  shows "map cid (map (\<lambda>x. if cid x = i then g x else x) xs) = map cid xs"
  using assms by (induction xs) auto

lemma send_store_cases:
  "customers (snd (api_verify_send e b db)) = customers db
   \<or> (\<exists>i customer f.
         findUnique_id db i = Some customer
         \<and> (f = (\<lambda>row. row\<lparr> phoneVerificationCode := Some (generateVerificationCode e) \<rparr>)
            \<or> truthy (email customer)
              \<and> f = (\<lambda>row. row\<lparr> emailVerificationCode := Some (generateVerificationCode e) \<rparr>))
         \<and> customers (snd (api_verify_send e b db)) =
             map (\<lambda>x. if cid x = i then (f x)\<lparr>updatedAt := now e\<rparr> else x) (customers db))"
proof (cases "verificationSendSchema_parse e b")
  case (Inl err)
  then show ?thesis by (simp add: api_verify_send_def)
next
  case (Inr p)
  obtain i t where p: "p = (i, t)" by (cases p)
  show ?thesis
  proof (cases "findUnique_id db i")
    case None
    with Inr p show ?thesis by (simp add: api_verify_send_def)
  next
    case (Some customer)
    show ?thesis
    proof (cases t)
      case Phone
      have "customers (snd (api_verify_send e b db)) = customers db
            \<or> customers (snd (api_verify_send e b db)) =
                map (\<lambda>x. if cid x = i
                          then (x\<lparr> phoneVerificationCode := Some (generateVerificationCode e) \<rparr>)\<lparr>updatedAt := now e\<rparr>
                          else x) (customers db)"
        using Inr p Some Phone
        by (simp add: api_verify_send_def Let_def send_store_and_dispatch_def customer_update_found
            split: sum.splits)
      with Some show ?thesis by blast
    next
      case Email
      show ?thesis
      proof (cases "truthy (email customer)")
        case False
        with Inr p Some Email show ?thesis by (simp add: api_verify_send_def Let_def)
      next
        case True
        have "customers (snd (api_verify_send e b db)) = customers db
              \<or> customers (snd (api_verify_send e b db)) =
                  map (\<lambda>x. if cid x = i
                            then (x\<lparr> emailVerificationCode := Some (generateVerificationCode e) \<rparr>)\<lparr>updatedAt := now e\<rparr>
                            else x) (customers db)"
          using Inr p Some Email True
          by (simp add: api_verify_send_def Let_def send_store_and_dispatch_def customer_update_found
              split: sum.splits)
        with Some True show ?thesis by blast
      qed
    qed
  qed
qed

lemma send_keeps:
  assumes d: "distinct (map cid (customers db))"
    and all: "\<forall>c\<in>set (customers db). P c"
    and phone: "\<And>x v t. P x \<Longrightarrow> P (x\<lparr> phoneVerificationCode := Some v, updatedAt := t \<rparr>)"
    and mail: "\<And>x v t. P x \<Longrightarrow> truthy (email x) \<Longrightarrow>
                 P (x\<lparr> emailVerificationCode := Some v, updatedAt := t \<rparr>)"
  shows "distinct (map cid (customers (snd (api_verify_send e b db))))
       \<and> (\<forall>c\<in>set (customers (snd (api_verify_send e b db))). P c)"
proof -
  from send_store_cases[of e b db]
  consider "customers (snd (api_verify_send e b db)) = customers db"
    | i customer f where "findUnique_id db i = Some customer"
        "f = (\<lambda>row. row\<lparr> phoneVerificationCode := Some (generateVerificationCode e) \<rparr>)
         \<or> truthy (email customer)
           \<and> f = (\<lambda>row. row\<lparr> emailVerificationCode := Some (generateVerificationCode e) \<rparr>)"
        "customers (snd (api_verify_send e b db)) =
           map (\<lambda>x. if cid x = i then (f x)\<lparr>updatedAt := now e\<rparr> else x) (customers db)"
    by blast
  then show ?thesis
  proof cases
    case 1
    with d all show ?thesis by simp
  next
    case (2 i customer f)
    have cidf: "\<And>x. cid ((f x)\<lparr>updatedAt := now e\<rparr>) = cid x" using 2(2) by auto
    have step: "P customer \<Longrightarrow> P ((f customer)\<lparr>updatedAt := now e\<rparr>)"
      using 2(2) phone[where x=customer and v="generateVerificationCode e" and t="now e"]
        mail[where x=customer and v="generateVerificationCode e" and t="now e"] by auto
    have "\<forall>c\<in>set (map (\<lambda>x. if cid x = i then (f x)\<lparr>updatedAt := now e\<rparr> else x) (customers db)). P c"
      using d all 2(1)[unfolded findUnique_id_def] step by (rule update_keeps)
    moreover have "map cid (map (\<lambda>x. if cid x = i then (f x)\<lparr>updatedAt := now e\<rparr> else x) (customers db))
                     = map cid (customers db)"
      using cidf by (rule update_keeps_cids)
    ultimately show ?thesis using d by (simp only: 2(3))
  qed
qed

lemma confirm_store_cases:
  "customers (snd (api_verify_confirm e b db)) = customers db
   \<or> (\<exists>i t code customer.
         findUnique_id db i = Some customer \<and> \<not> isAlreadyVerified t customer
         \<and> storedCode t customer = Some code
         \<and> customers (snd (api_verify_confirm e b db)) =
             map (\<lambda>x. if cid x = i then (confirm_updateData e t customer x)\<lparr>updatedAt := now e\<rparr> else x)
               (customers db))"
proof (cases "verificationConfirmSchema_parse e b")
  case (Inl err)
  then show ?thesis by (simp add: api_verify_confirm_def)
next
  case (Inr p)
  obtain i t code where p: "p = (i, t, code)" by (cases p)
  show ?thesis
  proof (cases "findUnique_id db i")
    case None
    with Inr p show ?thesis by (simp add: api_verify_confirm_def)
  next
    case (Some customer)
    show ?thesis
    proof (cases "isAlreadyVerified t customer")
      case True
      with confirm_acknowledged[OF Inr[unfolded p] Some] show ?thesis by simp
    next
      case False
      show ?thesis
      proof (cases "storedCode t customer = Some code")
        case False
        with confirm_invalid[OF Inr[unfolded p] Some \<open>\<not> isAlreadyVerified t customer\<close>]
        show ?thesis by simp
      next
        case True
        have "customers (snd (api_verify_confirm e b db)) =
                map (\<lambda>x. if cid x = i then (confirm_updateData e t customer x)\<lparr>updatedAt := now e\<rparr> else x)
                  (customers db)"
          unfolding confirm_match[OF Inr[unfolded p] Some False True] by (simp add: Let_def)
        with Some True \<open>\<not> isAlreadyVerified t customer\<close> show ?thesis by blast
      qed
    qed
  qed
qed

lemma confirm_keeps:
  assumes d: "distinct (map cid (customers db))"
    and all: "\<forall>c\<in>set (customers db). P c"
    and confirmed: "\<And>e t x code. P x \<Longrightarrow> \<not> isAlreadyVerified t x \<Longrightarrow> storedCode t x = Some code \<Longrightarrow>
                      P ((confirm_updateData e t x x)\<lparr>updatedAt := now e\<rparr>)"
  shows "distinct (map cid (customers (snd (api_verify_confirm e b db))))
       \<and> (\<forall>c\<in>set (customers (snd (api_verify_confirm e b db))). P c)"
proof -
  from confirm_store_cases[of e b db]
  consider "customers (snd (api_verify_confirm e b db)) = customers db"
    | i t code customer where "findUnique_id db i = Some customer"
        "\<not> isAlreadyVerified t customer" "storedCode t customer = Some code"
        "customers (snd (api_verify_confirm e b db)) =
           map (\<lambda>x. if cid x = i then (confirm_updateData e t customer x)\<lparr>updatedAt := now e\<rparr> else x)
             (customers db)"
    by blast
  then show ?thesis
  proof cases
    case 1
    with d all show ?thesis by simp
  next
    case (2 i t code customer)
    have step: "P customer \<Longrightarrow> P ((confirm_updateData e t customer customer)\<lparr>updatedAt := now e\<rparr>)"
      using 2(2,3) by (rule confirmed[rotated])
    have "\<forall>c\<in>set (map (\<lambda>x. if cid x = i then (confirm_updateData e t customer x)\<lparr>updatedAt := now e\<rparr> else x)
                     (customers db)). P c"
      using d all 2(1)[unfolded findUnique_id_def] step by (rule update_keeps)
    moreover have "map cid (map (\<lambda>x. if cid x = i then (confirm_updateData e t customer x)\<lparr>updatedAt := now e\<rparr> else x)
                     (customers db)) = map cid (customers db)"
      by (rule update_keeps_cids) simp
    ultimately show ?thesis using d by (simp only: 2(4))
  qed
qed

lemma register_store_created:
  "snd (api_register e b db) = db
   \<or> (\<exists>data bd code c'.
         customer_create db (new_customer e data bd code) = Inr (c', snd (api_register e b db)))"
  by (auto simp: api_register_def api_register_interleaved_def Let_def register_catch_store
      split: sum.splits option.splits prod.splits)

lemma register_keeps:
  assumes d: "distinct (map cid (customers db))"
    and all: "\<forall>c\<in>set (customers db). P c"
    and created: "\<And>e data bd code. P (new_customer e data bd code)"
  shows "distinct (map cid (customers (snd (api_register e b db))))
       \<and> (\<forall>c\<in>set (customers (snd (api_register e b db))). P c)"
proof -
  from register_store_created[of e b db]
  consider "snd (api_register e b db) = db"
    | c c' where "customer_create db c = Inr (c', snd (api_register e b db))"
        "\<exists>data bd code. c = new_customer e data bd code"
    by blast
  then show ?thesis
  proof cases
    case 1
    with d all show ?thesis by simp
  next
    case (2 c c')
    from 2(1) have n: "findUnique_id db (cid c) = None"
      and s: "snd (api_register e b db) = db\<lparr>customers := customers db @ [c]\<rparr>"
      by (auto simp: customer_create_def split: if_splits)
    from n have "cid c \<notin> set (map cid (customers db))"
      unfolding findUnique_id_def by (rule find_None_notin)
    moreover from 2(2) created have "P c" by blast
    ultimately show ?thesis using d all s by simp
  qed
qed

text \<open>What a property of rows must satisfy to be kept by all three endpoints.\<close>

lemma run_keeps:
  assumes d: "distinct (map cid (customers db))"
    and all: "\<forall>c\<in>set (customers db). P c"
    and phone: "\<And>x v t. P x \<Longrightarrow> P (x\<lparr> phoneVerificationCode := Some v, updatedAt := t \<rparr>)"
    and mail: "\<And>x v t. P x \<Longrightarrow> truthy (email x) \<Longrightarrow>
                 P (x\<lparr> emailVerificationCode := Some v, updatedAt := t \<rparr>)"
    and confirmed: "\<And>e t x code. P x \<Longrightarrow> \<not> isAlreadyVerified t x \<Longrightarrow> storedCode t x = Some code \<Longrightarrow>
                      P ((confirm_updateData e t x x)\<lparr>updatedAt := now e\<rparr>)"
    and created: "\<And>e data bd code. P (new_customer e data bd code)"
  shows "distinct (map cid (customers (run cs db))) \<and> (\<forall>x\<in>set (customers (run cs db)). P x)"
  using d all
proof (induction cs arbitrary: db)
  case Nil
  then show ?case by (simp add: run_def)
next
  case (Cons c cs)
  have "distinct (map cid (customers (perform c db))) \<and> (\<forall>x\<in>set (customers (perform c db)). P x)"
  proof (cases c)
    case (Register e b)
    with register_keeps[of db P e b, OF Cons.prems created] show ?thesis by (simp add: perform_def)
  next
    case (Send e b)
    with send_keeps[of db P e b, OF Cons.prems phone mail] show ?thesis by (simp add: perform_def)
  next
    case (Confirm e b)
    with confirm_keeps[of db P e b, OF Cons.prems confirmed] show ?thesis by (simp add: perform_def)
  qed
  then have "distinct (map cid (customers (perform c db)))"
    and "\<forall>x\<in>set (customers (perform c db)). P x"
    by simp_all
  from Cons.IH[OF this] show ?case by (simp add: run_def)
qed

text \<open>Two such properties: a customer without an email address is unverified and holds no
  email code; and \<open>isVerified\<close> is set only when both channel flags are.\<close>

lemma run_keeps_no_email:
  assumes "distinct (map cid (customers db))"
    and "\<forall>c\<in>set (customers db). no_email_unverified c"
  shows "\<forall>x\<in>set (customers (run cs db)). no_email_unverified x"
proof -
  have "distinct (map cid (customers (run cs db)))
        \<and> (\<forall>x\<in>set (customers (run cs db)). no_email_unverified x)"
  proof (rule run_keeps[OF assms])
    fix e t x code
    assume "no_email_unverified x" "\<not> isAlreadyVerified t x" "storedCode t x = Some code"
    then show "no_email_unverified ((confirm_updateData e t x x)\<lparr>updatedAt := now e\<rparr>)"
      by (cases t)
         (auto simp: no_email_unverified_def confirm_updateData_def storedCode_def Let_def
           isEmailVerifiedAfter_def isPhoneVerifiedAfter_def)
  qed (auto simp: no_email_unverified_def new_customer_def)
  then show ?thesis by simp
qed

lemma run_keeps_derived_flag:
  assumes "distinct (map cid (customers db))"
    and "\<forall>c\<in>set (customers db). isVerified c \<longrightarrow> isPhoneVerified c \<and> isEmailVerified c"
  shows "\<forall>x\<in>set (customers (run cs db)). isVerified x \<longrightarrow> isPhoneVerified x \<and> isEmailVerified x"
proof -
  have "distinct (map cid (customers (run cs db)))
        \<and> (\<forall>x\<in>set (customers (run cs db)). isVerified x \<longrightarrow> isPhoneVerified x \<and> isEmailVerified x)"
  proof (rule run_keeps[where P="\<lambda>x. isVerified x \<longrightarrow> isPhoneVerified x \<and> isEmailVerified x", OF assms])
    fix e t x code
    assume "isVerified x \<longrightarrow> isPhoneVerified x \<and> isEmailVerified x"
      "\<not> isAlreadyVerified t x" "storedCode t x = Some code"
    then show "isVerified ((confirm_updateData e t x x)\<lparr>updatedAt := now e\<rparr>) \<longrightarrow>
               isPhoneVerified ((confirm_updateData e t x x)\<lparr>updatedAt := now e\<rparr>)
               \<and> isEmailVerified ((confirm_updateData e t x x)\<lparr>updatedAt := now e\<rparr>)"
      by (cases t)
         (auto simp: confirm_updateData_def Let_def isEmailVerifiedAfter_def isPhoneVerifiedAfter_def)
  qed (auto simp: new_customer_def)
  then show ?thesis by simp
qed

section \<open>Customers without an email address\<close>

lemma send_email_refused:
  assumes "verificationSendSchema_parse e b = Inr (i, Email)"
    and "findUnique_id db i = Some c" "\<not> truthy (email c)"
  shows "api_verify_send e b db = (reply 400 Email_missing, db)"
  using assms by (simp add: api_verify_send_def Let_def)

text \<open>
  Claim C10. Start from a store with distinct customer ids in which every customer without
  an email address holds no email code and is verified neither by email nor as a whole (the
  empty store is one, and registration creates such rows). After any sequence of
  registration, send and confirm calls, a customer without an email address still has
  \<open>isEmailVerified\<close> and \<open>isVerified\<close> false; asking to send that customer an email code
  is refused with 400, and confirming an email code for that customer fails with the
  invalid-code error, whatever the code.
\<close>

theorem no_email_never_verified:
  assumes wf: "distinct (map cid (customers db))"
    and inv: "\<forall>x\<in>set (customers db). no_email_unverified x"
    and found: "findUnique_id (run cs db) i = Some c"
    and noemail: "\<not> truthy (email c)"
  shows "\<not> isEmailVerified c \<and> \<not> isVerified c
       \<and> (\<forall>e b. verificationSendSchema_parse e b = Inr (i, Email) \<longrightarrow>
             api_verify_send e b (run cs db) = (reply 400 Email_missing, run cs db))
       \<and> (\<forall>e b code. verificationConfirmSchema_parse e b = Inr (i, Email, code) \<longrightarrow>
             api_verify_confirm e b (run cs db) = (reply 400 Invalid_or_expired_code, run cs db))"
proof -
  from found have "c \<in> set (customers (run cs db))"
    by (auto simp: findUnique_id_def find_Some_iff)
  with run_keeps_no_email[OF wf inv, of cs] have "no_email_unverified c" by blast
  with noemail have st: "emailVerificationCode c = None" "\<not> isEmailVerified c" "\<not> isVerified c"
    by (simp_all add: no_email_unverified_def)
  have send: "\<forall>e b. verificationSendSchema_parse e b = Inr (i, Email) \<longrightarrow>
             api_verify_send e b (run cs db) = (reply 400 Email_missing, run cs db)"
    using send_email_refused[OF _ found noemail] by blast
  have ny: "\<not> isAlreadyVerified Email c" using st by (simp add: isAlreadyVerified_def)
  have sc: "\<And>code. storedCode Email c \<noteq> Some code" using st by (simp add: storedCode_def)
  have confirm: "\<forall>e b code. verificationConfirmSchema_parse e b = Inr (i, Email, code) \<longrightarrow>
             api_verify_confirm e b (run cs db) = (reply 400 Invalid_or_expired_code, run cs db)"
    using confirm_invalid[OF _ found ny sc] by blast
  from st(2,3) send confirm show ?thesis by (intro conjI)
qed

lemma parse_send_email:
  "verificationSendSchema_parse env0 (send_body ''email'') = Inr (''cjld2cjxh0000qzrmn831i7rn'', Email)"
  by (simp add: verificationSendSchema_parse_def channel_of_def required_def string_of_def
      send_body_def env0_fields)

lemma alice_registers:
  "snd (api_register env0 body_alice empty_store) = store_of [alice]"
proof -
  have "api_register env0 body_alice empty_store =
     ((reply 202 Registration_succeeded_verification_required)
        \<lparr> status := Some ''verification_required'', customerId := Some (cuid env0) \<rparr>,
      empty_store\<lparr> customers := customers empty_store @ [new_customer env0 data_alice (birthDate_of env0 data_alice) ''RC10-4FZYO8''] \<rparr>)"
    by (rule register_fresh[OF parse_body_alice _ _ generate_env0_empty])
       (simp_all add: birthDate_alice findUnique_phoneNumber_def findUnique_id_def empty_store_def)
  then show ?thesis
    by (simp add: birthDate_alice new_customer_alice empty_store_def store_of_def)
qed

lemma alice_asks_phone_code:
  "snd (api_verify_send env0 (send_body ''phone'') (store_of [alice])) = store_of [alice_pending]"
proof -
  have f: "findUnique_id (store_of [alice]) ''cjld2cjxh0000qzrmn831i7rn'' = Some alice"
    by (rule findUnique_id_single) (simp add: alice_def)
  have n: "\<not> isAlreadyVerified Phone alice" by (simp add: isAlreadyVerified_def alice_def)
  show ?thesis
    using f n
    by (simp add: api_verify_send_def parse_send_phone Let_def send_store_and_dispatch_def
        customer_update_found code_env0 store_of_def alice_pending_def alice_def env0_fields
        split: sum.splits)
qed

lemma alice_confirms_phone:
  "snd (api_verify_confirm env0 (confirm_body ''phone'' ''1234'') (store_of [alice_pending])) =
     store_of [alice_phone_verified]"
proof -
  have f: "findUnique_id (store_of [alice_pending]) ''cjld2cjxh0000qzrmn831i7rn'' = Some alice_pending"
    by (rule findUnique_id_single) (simp add: alice_pending_def alice_def)
  have n: "\<not> isAlreadyVerified Phone alice_pending"
    by (simp add: isAlreadyVerified_def alice_pending_def alice_def)
  have s: "storedCode Phone alice_pending = Some ''1234''"
    by (simp add: storedCode_def alice_pending_def)
  show ?thesis
    unfolding confirm_match[OF parse_confirm_phone f n s]
    by (simp add: Let_def isPhoneVerifiedAfter_def isEmailVerifiedAfter_def confirm_updateData_def
        store_of_def alice_pending_def alice_phone_verified_def alice_def env0_fields)
qed

lemma find_alice_phone_verified:
  "findUnique_id (store_of [alice_phone_verified]) ''cjld2cjxh0000qzrmn831i7rn'' = Some alice_phone_verified"
  by (rule findUnique_id_single) (simp add: alice_phone_verified_def alice_def)

lemma alice_phone_verified_state:
  "\<not> truthy (email alice_phone_verified)" "\<not> isAlreadyVerified Email alice_phone_verified"
  "storedCode Email alice_phone_verified \<noteq> Some ''1234''"
  by (simp_all add: truthy_def isAlreadyVerified_def storedCode_def alice_phone_verified_def alice_def)

lemma alice_session_store: "run alice_session empty_store = store_of [alice_phone_verified]"
  by (simp add: run_def alice_session_def perform_def alice_registers alice_asks_phone_code
      alice_confirms_phone
      send_email_refused[OF parse_send_email find_alice_phone_verified alice_phone_verified_state(1)]
      confirm_invalid[OF parse_confirm_email find_alice_phone_verified alice_phone_verified_state(2,3)])

text \<open>Alice has no email address. After her session the phone channel is verified, the
  email channel and the customer as a whole are not, and an email code is refused.\<close>

theorem no_email_never_verified_witness:
  "run alice_session empty_store = store_of [alice_phone_verified]
   \<and> \<not> truthy (email alice_phone_verified)
   \<and> \<not> isEmailVerified alice_phone_verified \<and> \<not> isVerified alice_phone_verified
   \<and> api_verify_send env0 (send_body ''email'') (store_of [alice_phone_verified]) =
       (reply 400 Email_missing, store_of [alice_phone_verified])
   \<and> api_verify_confirm env0 (confirm_body ''email'' ''1234'') (store_of [alice_phone_verified]) =
       (reply 400 Invalid_or_expired_code, store_of [alice_phone_verified])"
proof -
  have wf: "distinct (map cid (customers empty_store))" by (simp add: empty_store_def)
  have inv: "\<forall>x\<in>set (customers empty_store). no_email_unverified x" by (simp add: empty_store_def)
  have found: "findUnique_id (run alice_session empty_store) ''cjld2cjxh0000qzrmn831i7rn''
                 = Some alice_phone_verified"
    by (simp add: alice_session_store find_alice_phone_verified)
  note t = no_email_never_verified[OF wf inv found alice_phone_verified_state(1)]
  from t have 1: "\<not> isEmailVerified alice_phone_verified \<and> \<not> isVerified alice_phone_verified"
    by blast
  from t parse_send_email
  have 2: "api_verify_send env0 (send_body ''email'') (run alice_session empty_store) =
             (reply 400 Email_missing, run alice_session empty_store)"
    by blast
  from t parse_confirm_email
  have 3: "api_verify_confirm env0 (confirm_body ''email'' ''1234'') (run alice_session empty_store) =
             (reply 400 Invalid_or_expired_code, run alice_session empty_store)"
    by blast
  from 1 2 3 alice_phone_verified_state(1) show ?thesis
    by (simp add: alice_session_store)
qed

section \<open>Completing the verification\<close>
















end
